theory Spec2Isabelle
  imports Complex_Main "HOL-Library.Word" "HOL-Library.AList"
begin

section \<open>Data model\<close>

text \<open>
  The embedding follows \<^verbatim>\<open>metric_registry.go\<close>, \<^verbatim>\<open>run.go\<close>, the \<^verbatim>\<open>State\<close> methods and
  \<^verbatim>\<open>provider.go\<close>. Package-level variables become fields of one \<open>world\<close> record that every
  operation takes and returns. Calls into the vendor SDKs (tracer, spans, metric instruments)
  are external: each such call is appended to the \<open>events\<close> list, in program order. Log
  statements are appended to \<open>logs\<close> with their level; what a sink does with a level is
  not modelled.
\<close>

type_synonym int64 = "64 word"
type_synonym attrs = "(string \<times> string) list"

text \<open>An SDK instrument is an opaque handle; a nil interface value is \<open>None\<close>.\<close>

type_synonym handle = nat

record MetricInstrument =
  Int64Counter :: "handle option"
  Float64Histogram :: "handle option"
  Int64UpDownCounter :: "handle option"

text \<open>
  A Go error value: one made by the caller (with an identity and a message), or one made by
  \<^verbatim>\<open>fmt.Errorf\<close> inside the package (its formatted message).
\<close>

datatype error = CallerError nat string | Errorf string

fun Error_msg :: "error \<Rightarrow> string" where
  "Error_msg (CallerError i m) = m"
| "Error_msg (Errorf m) = m"

text \<open>The meter of the metrics SDK: three instrument constructors, each may fail.\<close>

record meter =
  mkInt64Counter :: "string \<Rightarrow> string \<Rightarrow> string \<Rightarrow> error + handle"
  mkFloat64Histogram :: "string \<Rightarrow> string \<Rightarrow> string \<Rightarrow> error + handle"
  mkInt64UpDownCounter :: "string \<Rightarrow> string \<Rightarrow> string \<Rightarrow> error + handle"

datatype level = DebugLevel | InfoLevel | WarnLevel | ErrorLevel | Disabled

datatype field_value = FStr string | FTraceID nat | FSpanID nat | FErr error

type_synonym fields = "(string \<times> field_value) list"

record logger =
  lvl :: level
  lfields :: fields

datatype log_entry = LogEntry level fields string

datatype code = Unset | Error | Ok

datatype event =
    TracerStart nat string
  | SpanRecordError nat error bool
  | SpanSetStatus nat code string
  | SpanSetAttributes nat attrs
  | SpanAddEvent nat string attrs
  | SpanEnd nat
  | CounterAdd handle int64 attrs
  | UpDownCounterAdd handle int64 attrs
  | HistogramRecord handle real attrs

text \<open>
  A Go map object is an association list with \<open>map_of\<close> as lookup and \<open>AList.update\<close> as
  \<^verbatim>\<open>m[k] = v\<close>. Map objects live in a store (\<open>snapshots\<close>, indexed by address); \<^verbatim>\<open>make\<close>
  takes the next free address. \<open>registry\<close> is the \<^verbatim>\<open>atomic.Value\<close>: the address of the current
  snapshot, or \<open>None\<close> while nothing has been stored.
\<close>

type_synonym registry_map = "(string \<times> MetricInstrument) list"

record world =
  registry :: "nat option"
  snapshots :: "nat \<Rightarrow> registry_map"
  next_addr :: nat
  registryOnce :: bool
  localValues :: "(string \<times> int64) list"
  Meter :: "meter option"
  global_logger :: logger
  logs :: "log_entry list"
  events :: "event list"
  next_span :: nat
  clock :: int

definition log_msg :: "logger \<Rightarrow> level \<Rightarrow> fields \<Rightarrow> string \<Rightarrow> world \<Rightarrow> world" where
  "log_msg l lv fs msg w = w\<lparr>logs := logs w @ [LogEntry lv (lfields l @ fs) msg]\<rparr>"

definition log_global :: "level \<Rightarrow> fields \<Rightarrow> string \<Rightarrow> world \<Rightarrow> world" where
  "log_global lv fs msg w = log_msg (global_logger w) lv fs msg w"

section \<open>Metric registry\<close>

definition getRegistryMap :: "world \<Rightarrow> registry_map option" where
  "getRegistryMap w = (case registry w of None \<Rightarrow> None | Some a \<Rightarrow> Some (snapshots w a))"

text \<open>The loop \<^verbatim>\<open>for k, v := range oldMap { newMap[k] = v }\<close>.\<close>

fun copy_entries :: "registry_map \<Rightarrow> registry_map \<Rightarrow> registry_map" where
  "copy_entries [] newMap = newMap"
| "copy_entries ((k, v) # rest) newMap = copy_entries rest (AList.update k v newMap)"

definition register :: "string \<Rightarrow> MetricInstrument \<Rightarrow> world \<Rightarrow> world" where
  "register name inst w =
     (let oldMap = (case getRegistryMap w of None \<Rightarrow> [] | Some m \<Rightarrow> m);
          a = next_addr w;
          newMap = copy_entries oldMap [];
          w1 = (if map_of newMap name \<noteq> None
                then log_global WarnLevel [(''metric'', FStr name)]
                       ''Overwriting existing metric definition in registry'' w
                else w);
          newMap' = AList.update name inst newMap
      in w1\<lparr>snapshots := (snapshots w1)(a := newMap'), next_addr := Suc a, registry := Some a\<rparr>)"

text \<open>
  Well-formed store: the published address has been allocated, and the snapshot it names has
  one entry per key (it is a Go map).
\<close>

definition registry_wf :: "world \<Rightarrow> bool" where
  "registry_wf w = (case registry w of None \<Rightarrow> True
                    | Some a \<Rightarrow> a < next_addr w \<and> distinct (map fst (snapshots w a)))"

definition lookup_registry :: "world \<Rightarrow> string \<Rightarrow> MetricInstrument option" where
  "lookup_registry w name = (case getRegistryMap w of None \<Rightarrow> None | Some m \<Rightarrow> map_of m name)"


text \<open>The package state at process start: every package-level variable has its zero value.\<close>

definition world0 :: world where
  "world0 = \<lparr>registry = None, snapshots = (\<lambda>_. []), next_addr = 0, registryOnce = False,
              localValues = [], Meter = None,
              global_logger = \<lparr>lvl = DebugLevel, lfields = []\<rparr>,
              logs = [], events = [], next_span = 0, clock = 0\<rparr>"

definition overwrite_warning :: "world \<Rightarrow> string \<Rightarrow> log_entry" where
  "overwrite_warning w name =
     LogEntry WarnLevel (lfields (global_logger w) @ [(''metric'', FStr name)])
       ''Overwriting existing metric definition in registry''"

definition counter_inst :: "handle \<Rightarrow> MetricInstrument" where
  "counter_inst h = \<lparr>Int64Counter = Some h, Float64Histogram = None, Int64UpDownCounter = None\<rparr>"

definition histogram_inst :: "handle \<Rightarrow> MetricInstrument" where
  "histogram_inst h = \<lparr>Int64Counter = None, Float64Histogram = Some h, Int64UpDownCounter = None\<rparr>"

definition updown_inst :: "handle \<Rightarrow> MetricInstrument" where
  "updown_inst h = \<lparr>Int64Counter = None, Float64Histogram = None, Int64UpDownCounter = Some h\<rparr>"


text \<open>
  A \<^verbatim>\<open>context.Context\<close> is an immutable chain: every \<^verbatim>\<open>WithValue\<close> wraps its parent. The three
  keys the package uses are the logger, the span and the baggage.
\<close>

type_synonym baggage = "(string \<times> string) list"

datatype "context" =
    Background
  | WithLogger "context" logger
  | WithSpan "context" nat
  | WithBaggage "context" baggage

text \<open>
  \<open>localValues\<close>: \<^verbatim>\<open>LoadOrStore(name, &atomic.Int64{})\<close> followed by \<^verbatim>\<open>Add(value)\<close> on the
  cell it returns. Addition on \<open>int64\<close> wraps.
\<close>

definition LoadOrStore :: "string \<Rightarrow> int64 \<Rightarrow> world \<Rightarrow> world" where
  "LoadOrStore name v w =
     (case map_of (localValues w) name of
        Some old \<Rightarrow> w
      | None \<Rightarrow> w\<lparr>localValues := AList.update name v (localValues w)\<rparr>)"

definition atomic_Add :: "string \<Rightarrow> int64 \<Rightarrow> world \<Rightarrow> world" where
  "atomic_Add name delta w =
     (case map_of (localValues w) name of
        Some old \<Rightarrow> w\<lparr>localValues := AList.update name (old + delta) (localValues w)\<rparr>
      | None \<Rightarrow> w)"

definition GetMetricValue :: "string \<Rightarrow> world \<Rightarrow> int64" where
  "GetMetricValue name w = (case map_of (localValues w) name of None \<Rightarrow> 0 | Some v \<Rightarrow> v)"

definition addToIntCounterImpl ::
  "context \<Rightarrow> string \<Rightarrow> int64 \<Rightarrow> attrs \<Rightarrow> world \<Rightarrow> world" where
  "addToIntCounterImpl ctx name v attributes w =
     (case getRegistryMap w of
        None \<Rightarrow> w
      | Some reg \<Rightarrow>
          (case map_of reg name of
             None \<Rightarrow> log_global DebugLevel [(''metric_name'', FStr name)]
                       ''Metric not registered, skipping record'' w
           | Some instrument \<Rightarrow>
               (case Int64Counter instrument of
                  None \<Rightarrow> log_global WarnLevel [(''metric_name'', FStr name)]
                            ''Metric type mismatch: expected Int64Counter'' w
                | Some c \<Rightarrow>
                    atomic_Add name v (LoadOrStore name 0
                      (w\<lparr>events := events w @ [CounterAdd c v attributes]\<rparr>)))))"

definition addToInt64UpDownCounterImpl ::
  "context \<Rightarrow> string \<Rightarrow> int64 \<Rightarrow> attrs \<Rightarrow> world \<Rightarrow> world" where
  "addToInt64UpDownCounterImpl ctx name v attributes w =
     (case getRegistryMap w of
        None \<Rightarrow> w
      | Some reg \<Rightarrow>
          (case map_of reg name of
             None \<Rightarrow> log_global DebugLevel [(''metric_name'', FStr name)]
                       ''Metric not registered, skipping record'' w
           | Some instrument \<Rightarrow>
               (case Int64UpDownCounter instrument of
                  None \<Rightarrow> log_global WarnLevel [(''metric_name'', FStr name)]
                            ''Metric type mismatch: expected Int64UpDownCounter'' w
                | Some c \<Rightarrow>
                    atomic_Add name v (LoadOrStore name 0
                      (w\<lparr>events := events w @ [UpDownCounterAdd c v attributes]\<rparr>)))))"

definition recordInFloat64HistogramImpl ::
  "context \<Rightarrow> string \<Rightarrow> real \<Rightarrow> attrs \<Rightarrow> world \<Rightarrow> world" where
  "recordInFloat64HistogramImpl ctx name v attributes w =
     (case getRegistryMap w of
        None \<Rightarrow> w
      | Some reg \<Rightarrow>
          (case map_of reg name of
             None \<Rightarrow> log_global DebugLevel [(''metric_name'', FStr name)]
                       ''Metric not registered, skipping record'' w
           | Some instrument \<Rightarrow>
               (case Float64Histogram instrument of
                  None \<Rightarrow> log_global WarnLevel [(''metric_name'', FStr name)]
                            ''Metric type mismatch: expected Float64Histogram'' w
                | Some h \<Rightarrow> w\<lparr>events := events w @ [HistogramRecord h v attributes]\<rparr>)))"

text \<open>
  The exported functions call through the package variables \<^verbatim>\<open>addToIntCounterFunc\<close>,
  \<^verbatim>\<open>addToInt64UpDownCounterFunc\<close> and \<^verbatim>\<open>recordInFloat64HistogramFunc\<close>, which hold the
  implementations above (only the handler tests swap them).
\<close>

definition AddToIntCounter :: "context \<Rightarrow> string \<Rightarrow> int64 \<Rightarrow> attrs \<Rightarrow> world \<Rightarrow> world" where
  "AddToIntCounter = addToIntCounterImpl"

definition AddToInt64UpDownCounter ::
  "context \<Rightarrow> string \<Rightarrow> int64 \<Rightarrow> attrs \<Rightarrow> world \<Rightarrow> world" where
  "AddToInt64UpDownCounter = addToInt64UpDownCounterImpl"

definition RecordInFloat64Histogram ::
  "context \<Rightarrow> string \<Rightarrow> real \<Rightarrow> attrs \<Rightarrow> world \<Rightarrow> world" where
  "RecordInFloat64Histogram = recordInFloat64HistogramImpl"

definition meter_nil_msg :: string where
  "meter_nil_msg = ''o11y.Meter is nil. Call o11y.Init before registering metrics.''"

definition RegisterInt64Counter :: "string \<Rightarrow> string \<Rightarrow> string \<Rightarrow> world \<Rightarrow> world" where
  "RegisterInt64Counter name description unit w =
     (case Meter w of
        None \<Rightarrow> log_global ErrorLevel [] meter_nil_msg w
      | Some m \<Rightarrow>
          (case mkInt64Counter m name description unit of
             Inl err \<Rightarrow> log_global ErrorLevel [(''error'', FErr err), (''name'', FStr name)]
                          ''Failed to create Int64Counter'' w
           | Inr inst \<Rightarrow> register name
               \<lparr>Int64Counter = Some inst, Float64Histogram = None, Int64UpDownCounter = None\<rparr> w))"

definition RegisterFloat64Histogram :: "string \<Rightarrow> string \<Rightarrow> string \<Rightarrow> world \<Rightarrow> world" where
  "RegisterFloat64Histogram name description unit w =
     (case Meter w of
        None \<Rightarrow> log_global ErrorLevel [] meter_nil_msg w
      | Some m \<Rightarrow>
          (case mkFloat64Histogram m name description unit of
             Inl err \<Rightarrow> log_global ErrorLevel [(''error'', FErr err), (''name'', FStr name)]
                          ''Failed to create Float64Histogram'' w
           | Inr inst \<Rightarrow> register name
               \<lparr>Int64Counter = None, Float64Histogram = Some inst, Int64UpDownCounter = None\<rparr> w))"

definition RegisterInt64UpDownCounter :: "string \<Rightarrow> string \<Rightarrow> string \<Rightarrow> world \<Rightarrow> world" where
  "RegisterInt64UpDownCounter name description unit w =
     (case Meter w of
        None \<Rightarrow> log_global ErrorLevel [] meter_nil_msg w
      | Some m \<Rightarrow>
          (case mkInt64UpDownCounter m name description unit of
             Inl err \<Rightarrow> log_global ErrorLevel [(''error'', FErr err), (''name'', FStr name)]
                          ''Failed to create Int64UpDownCounter'' w
           | Inr inst \<Rightarrow> register name
               \<lparr>Int64Counter = None, Float64Histogram = None, Int64UpDownCounter = Some inst\<rparr> w))"

text \<open>\<^verbatim>\<open>registry.Store(make(map[string]MetricInstrument))\<close> when nothing has been stored.\<close>

definition store_empty_if_nil :: "world \<Rightarrow> world" where
  "store_empty_if_nil w =
     (if registry w = None
      then w\<lparr>snapshots := (snapshots w)(next_addr w := []),
              registry := Some (next_addr w), next_addr := Suc (next_addr w)\<rparr>
      else w)"

text \<open>The function that \<^verbatim>\<open>InitStandardMetrics\<close> hands to \<^verbatim>\<open>registryOnce.Do\<close>.\<close>

definition standard_metrics_body :: "world \<Rightarrow> world" where
  "standard_metrics_body w =
     (let w = log_global DebugLevel [] ''Initializing standard metrics registry...'' w;
          w = store_empty_if_nil w;
          w = RegisterFloat64Histogram ''http.server.request.duration''
                ''Measures the duration of inbound HTTP requests.'' ''s'' w;
          w = RegisterInt64Counter ''http.server.request.total''
                ''Counts the total number of inbound HTTP requests.'' ''{request}'' w;
          w = RegisterInt64UpDownCounter ''http.server.active_requests''
                ''Measures the number of concurrent inbound HTTP requests that are currently in-flight.''
                ''{request}'' w;
          w = RegisterInt64Counter ''rpc.server.panic.total''
                ''Counts the number of panics in gRPC handlers.'' ''{panic}'' w;
          w = RegisterFloat64Histogram ''db.client.query.duration''
                ''Measures the duration of database queries.'' ''s'' w;
          w = RegisterFloat64Histogram ''biz.operation.duration''
                ''Measures the duration of a specific business logic operation.'' ''s'' w;
          w = RegisterInt64Counter ''biz.operation.error.total''
                ''Counts the total number of errors for a specific business logic operation.''
                ''{error}'' w;
          w = RegisterInt64Counter ''cache.client.operation.total''
                ''Counts cache hits and misses.'' ''{event}'' w
      in log_global InfoLevel [] ''Standard metrics registry initialized.'' w)"

text \<open>
  \<^verbatim>\<open>sync.Once\<close>: the body runs when the flag is clear, and the flag is set when the body has
  returned. The \<open>meter\<close> argument is not used by the source: the \<^verbatim>\<open>Register\<close> functions read
  the package variable \<^verbatim>\<open>Meter\<close>.
\<close>

definition InitStandardMetrics :: "meter \<Rightarrow> world \<Rightarrow> world" where
  "InitStandardMetrics m w =
     (if registryOnce w then w else (standard_metrics_body w)\<lparr>registryOnce := True\<rparr>)"

text \<open>Everything but the log is the same in both worlds.\<close>

definition only_logged :: "world \<Rightarrow> world \<Rightarrow> bool" where
  "only_logged w w' = (w' = w\<lparr>logs := logs w'\<rparr>)"


text \<open>The names \<^verbatim>\<open>InitStandardMetrics\<close> registers, by instrument kind.\<close>

definition standard_counters :: "string list" where
  "standard_counters = [''http.server.request.total'', ''rpc.server.panic.total'',
     ''biz.operation.error.total'', ''cache.client.operation.total'']"

definition standard_histograms :: "string list" where
  "standard_histograms = [''http.server.request.duration'', ''db.client.query.duration'',
     ''biz.operation.duration'']"

definition standard_updown_counters :: "string list" where
  "standard_updown_counters = [''http.server.active_requests'']"

text \<open>A meter whose constructors never fail, and a world in which it is installed.\<close>

definition total_meter :: "meter \<Rightarrow> bool" where
  "total_meter mt = (\<forall>n d u. \<not> isl (mkInt64Counter mt n d u) \<and>
                             \<not> isl (mkFloat64Histogram mt n d u) \<and>
                             \<not> isl (mkInt64UpDownCounter mt n d u))"

definition ready :: "world \<Rightarrow> bool" where
  "ready w = (registry_wf w \<and> (case Meter w of None \<Rightarrow> False | Some mt \<Rightarrow> total_meter mt))"

definition simple_meter :: meter where
  "simple_meter = \<lparr>mkInt64Counter = (\<lambda>n d u. Inr 1),
                    mkFloat64Histogram = (\<lambda>n d u. Inr 2),
                    mkInt64UpDownCounter = (\<lambda>n d u. Inr 3)\<rparr>"


definition world_with_meter :: world where
  "world_with_meter = world0\<lparr>Meter := Some simple_meter\<rparr>"

section \<open>State and Run\<close>

text \<open>
  \<^verbatim>\<open>zerolog.Ctx\<close> returns the logger stored in the context, or a disabled logger;
  \<^verbatim>\<open>GetLoggerFromContext\<close> replaces the disabled logger by the global one.
\<close>

fun zerolog_Ctx :: "context \<Rightarrow> logger" where
  "zerolog_Ctx Background = \<lparr>lvl = Disabled, lfields = []\<rparr>"
| "zerolog_Ctx (WithLogger c l) = l"
| "zerolog_Ctx (WithSpan c sp) = zerolog_Ctx c"
| "zerolog_Ctx (WithBaggage c b) = zerolog_Ctx c"

fun has_logger :: "context \<Rightarrow> bool" where
  "has_logger Background = False"
| "has_logger (WithLogger c l) = True"
| "has_logger (WithSpan c sp) = has_logger c"
| "has_logger (WithBaggage c b) = has_logger c"

definition GetLoggerFromContext :: "context \<Rightarrow> world \<Rightarrow> logger" where
  "GetLoggerFromContext ctx w =
     (let l = zerolog_Ctx ctx in if lvl l = Disabled then global_logger w else l)"

text \<open>\<^verbatim>\<open>Logger.WithContext\<close> does not store a disabled logger in a context that has none.\<close>

definition WithContext :: "logger \<Rightarrow> context \<Rightarrow> context" where
  "WithContext l ctx = (if \<not> has_logger ctx \<and> lvl l = Disabled then ctx else WithLogger ctx l)"

text \<open>
  \<^verbatim>\<open>Tracer.Start\<close>: the tracer hands out the next span and a context that carries it. A span
  is named by its number; \<open>FTraceID sp\<close> and \<open>FSpanID sp\<close> stand for the identifiers in its
  span context.
\<close>

definition Tracer_Start :: "context \<Rightarrow> string \<Rightarrow> world \<Rightarrow> context \<times> nat \<times> world" where
  "Tracer_Start ctx name w =
     (let sp = next_span w
      in (WithSpan ctx sp, sp,
          w\<lparr>next_span := Suc sp, events := events w @ [TracerStart sp name]\<rparr>))"

definition emit :: "event \<Rightarrow> world \<Rightarrow> world" where
  "emit e w = w\<lparr>events := events w @ [e]\<rparr>"

record State =
  s_ctx :: "context"
  Log :: logger
  span :: nat
  s_meter :: "meter option"

definition SetAttributes :: "State \<Rightarrow> attrs \<Rightarrow> world \<Rightarrow> world" where
  "SetAttributes s attributes w = emit (SpanSetAttributes (span s) attributes) w"

definition AddEvent :: "State \<Rightarrow> string \<Rightarrow> attrs \<Rightarrow> world \<Rightarrow> world" where
  "AddEvent s name attributes w = emit (SpanAddEvent (span s) name attributes) w"

definition IncCounter :: "State \<Rightarrow> string \<Rightarrow> attrs \<Rightarrow> world \<Rightarrow> world" where
  "IncCounter s name attributes w = AddToIntCounter (s_ctx s) name 1 attributes w"

definition RecordHistogram :: "State \<Rightarrow> string \<Rightarrow> real \<Rightarrow> attrs \<Rightarrow> world \<Rightarrow> world" where
  "RecordHistogram s name v attributes w = RecordInFloat64Histogram (s_ctx s) name v attributes w"

text \<open>
  A call either returns or panics. A panic value is kept as its \<^verbatim>\<open>%v\<close> rendering, which is
  all that \<^verbatim>\<open>Run\<close> uses of it. (\<^verbatim>\<open>recover\<close> never yields nil for a panic: the runtime turns
  \<^verbatim>\<open>panic(nil)\<close> into a \<^verbatim>\<open>*runtime.PanicNilError\<close>.)
\<close>

datatype panic_value = PanicValue string

fun fmt_v :: "panic_value \<Rightarrow> string" where
  "fmt_v (PanicValue r) = r"

datatype 'a outcome = Returned 'a | Panicked panic_value

type_synonym callback = "context \<Rightarrow> State \<Rightarrow> world \<Rightarrow> error option outcome \<times> world"

text \<open>\<^verbatim>\<open>time.Since(startTime).Seconds()\<close>, with the clock in nanoseconds.\<close>

definition Seconds :: "int \<Rightarrow> real" where
  "Seconds ns = real_of_int ns / 1000000000"

text \<open>
  Part 1 of \<^verbatim>\<open>Run\<close>: the parent logger, the span, the enriched logger, the context and the
  \<open>State\<close>.
\<close>

definition prepare :: "context \<Rightarrow> string \<Rightarrow> world \<Rightarrow> context \<times> State \<times> world" where
  "prepare ctx name w =
     (let parentLogger = GetLoggerFromContext ctx w;
          (ctxWithSpan, sp, w1) = Tracer_Start ctx name w;
          spanLogger = parentLogger\<lparr>lfields := lfields parentLogger @
                         [(''trace_id'', FTraceID sp), (''span_id'', FSpanID sp),
                          (''operation'', FStr name)]\<rparr>;
          ctxWithLogger = WithContext spanLogger ctxWithSpan
      in (ctxWithLogger,
          \<lparr>s_ctx = ctxWithLogger, Log = spanLogger, span = sp, s_meter = Meter w1\<rparr>,
          w1))"

text \<open>
  The three deferred functions, in the order in which they are registered. While they run,
  the state of the frame is the pending panic (if any), the named result \<open>err\<close> and the
  world. \<^verbatim>\<open>recover()\<close> returns the pending panic and clears it.
\<close>

type_synonym frame = "panic_value option \<times> error option \<times> world"

definition defer_span_End :: "State \<Rightarrow> frame \<Rightarrow> frame" where
  "defer_span_End s fr = (case fr of (p, err, w) \<Rightarrow> (p, err, emit (SpanEnd (span s)) w))"

definition panic_error :: "panic_value \<Rightarrow> error" where
  "panic_error r = Errorf (''panic recovered in o11y.Run: '' @ fmt_v r)"

definition defer_recover :: "string \<Rightarrow> State \<Rightarrow> frame \<Rightarrow> frame" where
  "defer_recover name s fr =
     (case fr of (p, err, w) \<Rightarrow>
        (case p of
           None \<Rightarrow> (None, err, w)
         | Some r \<Rightarrow>
             (let panicErr = panic_error r;
                  w = emit (SpanRecordError (span s) panicErr True) w;
                  w = emit (SpanSetStatus (span s) Error ''panic occurred'') w;
                  w = log_msg (Log s) ErrorLevel []
                        (''Panic recovered during operation: '' @ fmt_v r) w;
                  operationAttr = [(''operation'', name)];
                  w = IncCounter s ''biz.operation.error.total'' operationAttr w
              in (None, Some panicErr, w))))"

definition defer_duration :: "int \<Rightarrow> string \<Rightarrow> State \<Rightarrow> frame \<Rightarrow> frame" where
  "defer_duration startTime name s fr =
     (case fr of (p, err, w) \<Rightarrow>
        (let duration = Seconds (clock w - startTime);
             operationAttr = [(''operation'', name)]
         in (p, err, RecordHistogram s ''biz.operation.duration'' duration operationAttr w)))"

text \<open>Part 5 of \<^verbatim>\<open>Run\<close>, reached when \<open>fn\<close> has returned.\<close>

definition result_handling :: "string \<Rightarrow> State \<Rightarrow> error option \<Rightarrow> world \<Rightarrow> world" where
  "result_handling name s err w =
     (let operationAttr = [(''operation'', name)]
      in (case err of
            Some e \<Rightarrow>
              IncCounter s ''biz.operation.error.total'' operationAttr
                (emit (SpanSetStatus (span s) Error (Error_msg e))
                  (emit (SpanRecordError (span s) e False) w))
          | None \<Rightarrow> emit (SpanSetStatus (span s) Ok ''success'') w))"

text \<open>
  \<^verbatim>\<open>Run\<close>, as \<^verbatim>\<open>run.go\<close> defines it. The deferred functions run last registered first;
  what is left of the frame decides whether the call returns \<open>err\<close> or the panic goes on
  to the caller. The package variable \<^verbatim>\<open>Tracer\<close> is taken to be installed, as it is after
  every successful \<^verbatim>\<open>Init\<close>.
\<close>

definition Run :: "context \<Rightarrow> string \<Rightarrow> callback \<Rightarrow> world \<Rightarrow> error option outcome \<times> world" where
  "Run ctx name fn w =
     (let (ctxWithLogger, s, w1) = prepare ctx name w;
          startTime = clock w1;
          (res, w2) = fn ctxWithLogger s w1;
          fr = (case res of
                  Returned err \<Rightarrow> (None, err, result_handling name s err w2)
                | Panicked r \<Rightarrow> (Some r, None, w2));
          fr = defer_duration startTime name s fr;
          fr = defer_recover name s fr;
          fr = defer_span_End s fr
      in (case fr of
            (None, err, w3) \<Rightarrow> (Returned err, w3)
          | (Some r, err, w3) \<Rightarrow> (Panicked r, w3)))"

text \<open>The parts of \<open>prepare\<close>, and what a recording call appends to the SDK calls.\<close>

definition run_ctx :: "context \<Rightarrow> string \<Rightarrow> world \<Rightarrow> context" where
  "run_ctx ctx name w = fst (prepare ctx name w)"

definition run_state :: "context \<Rightarrow> string \<Rightarrow> world \<Rightarrow> State" where
  "run_state ctx name w = fst (snd (prepare ctx name w))"

definition run_world :: "context \<Rightarrow> string \<Rightarrow> world \<Rightarrow> world" where
  "run_world ctx name w = snd (snd (prepare ctx name w))"

definition counter_handle :: "world \<Rightarrow> string \<Rightarrow> handle option" where
  "counter_handle w name =
     (case lookup_registry w name of None \<Rightarrow> None | Some i \<Rightarrow> Int64Counter i)"

definition histogram_handle :: "world \<Rightarrow> string \<Rightarrow> handle option" where
  "histogram_handle w name =
     (case lookup_registry w name of None \<Rightarrow> None | Some i \<Rightarrow> Float64Histogram i)"

definition error_increment :: "world \<Rightarrow> string \<Rightarrow> event list" where
  "error_increment w name =
     (case counter_handle w ''biz.operation.error.total'' of
        None \<Rightarrow> []
      | Some c \<Rightarrow> [CounterAdd c 1 [(''operation'', name)]])"

definition duration_sample :: "world \<Rightarrow> string \<Rightarrow> real \<Rightarrow> event list" where
  "duration_sample w name d =
     (case histogram_handle w ''biz.operation.duration'' of
        None \<Rightarrow> []
      | Some h \<Rightarrow> [HistogramRecord h d [(''operation'', name)]])"


text \<open>
  Worlds used as concrete inputs: \<open>world_with_meter\<close> is the package state after \<^verbatim>\<open>Init\<close>
  with metrics disabled (a meter is installed, nothing is registered);
  \<open>world_registered\<close> has the two operation metrics registered.
\<close>

definition world_registered :: world where
  "world_registered =
     register ''biz.operation.duration'' (histogram_inst 2)
       (register ''biz.operation.error.total'' (counter_inst 1) world_with_meter)"

definition fn_panics :: callback where
  "fn_panics c s w = (Panicked (PanicValue ''oops''), w)"

definition fn_fails :: callback where
  "fn_fails c s w = (Returned (Some (CallerError 0 ''business error'')), w\<lparr>clock := clock w + 5\<rparr>)"

definition fn_succeeds :: callback where
  "fn_succeeds c s w = (Returned None, w\<lparr>clock := clock w + 5\<rparr>)"


fun is_HistogramRecord :: "event \<Rightarrow> bool" where
  "is_HistogramRecord (HistogramRecord h v a) = True"
| "is_HistogramRecord e = False"

fun is_CounterAdd :: "event \<Rightarrow> bool" where
  "is_CounterAdd (CounterAdd c v a) = True"
| "is_CounterAdd e = False"


section \<open>Baggage\<close>












section \<open>Provider\<close>

record FileRotationConfig =
  Filename :: string
  MaxSize :: int
  MaxBackups :: int
  MaxAge :: int
  Compress :: bool

record LogConfig =
  Level :: string
  TimePrecision :: string
  EnableCaller :: bool
  EnableConsole :: bool
  EnableFile :: bool
  FileRotation :: FileRotationConfig
  StackFilters :: "string list"

record TraceConfig =
  trace_Enabled :: bool
  trace_Exporter :: string
  Endpoint :: string
  OtlpInsecure :: bool
  SampleRatio :: real

record MetricConfig =
  metric_Enabled :: bool
  metric_Exporter :: string
  PrometheusPath :: string
  PrometheusAddr :: string
  EnableHostMetrics :: bool

record Config =
  Enabled :: bool
  Service :: string
  Version :: string
  Environment :: string
  InstrumentationScope :: string
  cfg_Log :: LogConfig
  cfg_Trace :: TraceConfig
  cfg_Metric :: MetricConfig

record resource =
  res_service :: string
  res_version :: string
  res_environment :: string

type_synonym tracer = nat
type_synonym tracer_provider = "string \<Rightarrow> tracer"
type_synonym meter_provider = "string \<Rightarrow> meter"
type_synonym ShutdownFunc = "context \<Rightarrow> world \<Rightarrow> error option \<times> world"

text \<open>What \<^verbatim>\<open>New\<close> takes from the SDK besides its three set-up arguments.\<close>

record externals =
  resource_Merge :: "string \<Rightarrow> string \<Rightarrow> string \<Rightarrow> error + resource"
  otel_GetTracerProvider :: tracer_provider
  otel_GetMeterProvider :: meter_provider

text \<open>The aggregate shutdown closure held by the provider is not part of this model.\<close>

record Provider =
  p_Tracer :: tracer
  p_Meter :: meter
  p_Logger :: logger

definition apply_defaults :: "Config \<Rightarrow> Config" where
  "apply_defaults cfg =
     (let cfg = (if InstrumentationScope cfg = [] then cfg\<lparr>InstrumentationScope := ''o11y''\<rparr>
                 else cfg);
          cfg = (if PrometheusAddr (cfg_Metric cfg) = []
                 then cfg\<lparr>cfg_Metric := (cfg_Metric cfg)\<lparr>PrometheusAddr := '':2222''\<rparr>\<rparr>
                 else cfg);
          cfg = (if PrometheusPath (cfg_Metric cfg) = []
                 then cfg\<lparr>cfg_Metric := (cfg_Metric cfg)\<lparr>PrometheusPath := ''/metrics''\<rparr>\<rparr>
                 else cfg)
      in cfg)"

text \<open>The logger \<^verbatim>\<open>log\<close> that \<^verbatim>\<open>New\<close> derives from the one \<^verbatim>\<open>setupLogging\<close> returned.\<close>

definition provider_logger :: "Config \<Rightarrow> logger \<Rightarrow> logger" where
  "provider_logger cfg l =
     l\<lparr>lfields := lfields l @ [(''service'', FStr (Service cfg)),
          (''version'', FStr (Version cfg)), (''environment'', FStr (Environment cfg))]\<rparr>"

definition New ::
  "externals \<Rightarrow> Config
     \<Rightarrow> (LogConfig \<Rightarrow> world \<Rightarrow> (logger \<times> ShutdownFunc) \<times> world)
     \<Rightarrow> (TraceConfig \<Rightarrow> resource \<Rightarrow> world \<Rightarrow> (tracer_provider \<times> ShutdownFunc \<times> error option) \<times> world)
     \<Rightarrow> (MetricConfig \<Rightarrow> resource \<Rightarrow> world \<Rightarrow> (meter_provider \<times> ShutdownFunc \<times> error option) \<times> world)
     \<Rightarrow> world \<Rightarrow> (Provider option \<times> error option) \<times> world" where
  "New ext cfg0 setupLogging setupTracing setupMetrics w =
     (let cfg = apply_defaults cfg0
      in if \<not> Enabled cfg
         then ((Some \<lparr>p_Tracer = otel_GetTracerProvider ext (InstrumentationScope cfg),
                       p_Meter = otel_GetMeterProvider ext (InstrumentationScope cfg),
                       p_Logger = \<lparr>lvl = DebugLevel, lfields = []\<rparr>\<rparr>, None), w)
         else
           (case resource_Merge ext (Service cfg) (Version cfg) (Environment cfg) of
              Inl err \<Rightarrow>
                ((None, Some (Errorf (''failed to create OpenTelemetry resource: '' @ Error_msg err))),
                 w)
            | Inr res \<Rightarrow>
                (let ((logger, logShutdown), w) = setupLogging (cfg_Log cfg) w;
                     log = provider_logger cfg logger;
                     w = log_msg log InfoLevel [] ''Logging initialized.'' w;
                     ((tp, traceShutdown, err), w) = setupTracing (cfg_Trace cfg) res w
                 in (case err of
                       Some e \<Rightarrow>
                         (let (r, w) = logShutdown Background w in ((None, Some e), w))
                     | None \<Rightarrow>
                         (let w = log_msg log InfoLevel [] ''Tracing initialized.'' w;
                              ((mp, metricShutdown, err), w) = setupMetrics (cfg_Metric cfg) res w
                          in (case err of
                                Some e \<Rightarrow>
                                  (let (r, w) = traceShutdown Background w;
                                       (r, w) = logShutdown Background w
                                   in ((None, Some e), w))
                              | None \<Rightarrow>
                                  (let w = log_msg log InfoLevel [] ''Metrics initialized.'' w
                                   in ((Some \<lparr>p_Tracer = tp (InstrumentationScope cfg),
                                               p_Meter = mp (InstrumentationScope cfg),
                                               p_Logger = log\<rparr>, None), w))))))))"

text \<open>Concrete set-up functions: each shutdown leaves a line in the log.\<close>

definition mark_shutdown :: "string \<Rightarrow> ShutdownFunc" where
  "mark_shutdown what ctx w = (None, log_global InfoLevel [] what w)"

definition test_setupLogging :: "LogConfig \<Rightarrow> world \<Rightarrow> (logger \<times> ShutdownFunc) \<times> world" where
  "test_setupLogging c w = ((\<lparr>lvl = InfoLevel, lfields = []\<rparr>, mark_shutdown ''logging shut down''), w)"

definition test_setupTracing ::
  "error option \<Rightarrow> TraceConfig \<Rightarrow> resource \<Rightarrow> world
     \<Rightarrow> (tracer_provider \<times> ShutdownFunc \<times> error option) \<times> world" where
  "test_setupTracing e c r w = (((\<lambda>scope. 0), mark_shutdown ''tracing shut down'', e), w)"

definition test_setupMetrics ::
  "error option \<Rightarrow> MetricConfig \<Rightarrow> resource \<Rightarrow> world
     \<Rightarrow> (meter_provider \<times> ShutdownFunc \<times> error option) \<times> world" where
  "test_setupMetrics e c r w = (((\<lambda>scope. simple_meter), mark_shutdown ''metrics shut down'', e), w)"

definition test_externals :: externals where
  "test_externals =
     \<lparr>resource_Merge = (\<lambda>s v e. Inr \<lparr>res_service = s, res_version = v, res_environment = e\<rparr>),
      otel_GetTracerProvider = (\<lambda>scope. 0),
      otel_GetMeterProvider = (\<lambda>scope. simple_meter)\<rparr>"

definition test_config :: Config where
  "test_config =
     \<lparr>Enabled = True, Service = ''svc'', Version = ''1.0.0'', Environment = ''test'',
      InstrumentationScope = [],
      cfg_Log = \<lparr>Level = ''info'', TimePrecision = [], EnableCaller = False,
                 EnableConsole = False, EnableFile = False,
                 FileRotation = \<lparr>Filename = [], MaxSize = 0, MaxBackups = 0, MaxAge = 0,
                                  Compress = False\<rparr>,
                 StackFilters = []\<rparr>,
      cfg_Trace = \<lparr>trace_Enabled = True, trace_Exporter = ''none'', Endpoint = [],
                   OtlpInsecure = False, SampleRatio = 1\<rparr>,
      cfg_Metric = \<lparr>metric_Enabled = True, metric_Exporter = ''none'', PrometheusPath = [],
                    PrometheusAddr = [], EnableHostMetrics = False\<rparr>\<rparr>"

fun entry_msg :: "log_entry \<Rightarrow> string" where
  "entry_msg (LogEntry lv fs msg) = msg"

section \<open>Goroutines recording concurrently\<close>

text \<open>
  Concurrent callers of \<^verbatim>\<open>AddToIntCounter(ctx, name, 1)\<close> are goroutines that interleave at
  the atomic operations of \<open>addToIntCounterImpl\<close>: the lock-free load of the registry with
  the lookup and the call of the SDK counter, \<^verbatim>\<open>localValues.LoadOrStore\<close>, and the
  \<^verbatim>\<open>Add\<close> on the cell it returned. A goroutine is the number of calls it still has to
  finish and the operation it is at; a schedule is the list of goroutine indices in the
  order in which they take a step.
\<close>

datatype pc = AtLookup | AtLoadOrStore | AtAdd

type_synonym goroutine = "nat \<times> pc"

definition goroutine_step ::
  "context \<Rightarrow> string \<Rightarrow> attrs \<Rightarrow> goroutine \<Rightarrow> world \<Rightarrow> goroutine \<times> world" where
  "goroutine_step ctx name attributes g w =
     (case g of
        (0, p) \<Rightarrow> (g, w)
      | (Suc k, AtLookup) \<Rightarrow>
          (case getRegistryMap w of
             None \<Rightarrow> ((k, AtLookup), w)
           | Some reg \<Rightarrow>
               (case map_of reg name of
                  None \<Rightarrow> ((k, AtLookup),
                            log_global DebugLevel [(''metric_name'', FStr name)]
                              ''Metric not registered, skipping record'' w)
                | Some instrument \<Rightarrow>
                    (case Int64Counter instrument of
                       None \<Rightarrow> ((k, AtLookup),
                                 log_global WarnLevel [(''metric_name'', FStr name)]
                                   ''Metric type mismatch: expected Int64Counter'' w)
                     | Some c \<Rightarrow> ((Suc k, AtLoadOrStore),
                                   w\<lparr>events := events w @ [CounterAdd c 1 attributes]\<rparr>))))
      | (Suc k, AtLoadOrStore) \<Rightarrow> ((Suc k, AtAdd), LoadOrStore name 0 w)
      | (Suc k, AtAdd) \<Rightarrow> ((k, AtLookup), atomic_Add name 1 w))"

definition sched_step ::
  "context \<Rightarrow> string \<Rightarrow> attrs \<Rightarrow> nat \<Rightarrow> goroutine list \<times> world \<Rightarrow> goroutine list \<times> world" where
  "sched_step ctx name attributes i cfg =
     (case cfg of (gs, w) \<Rightarrow>
        if i < length gs
        then (case goroutine_step ctx name attributes (gs ! i) w of
                (g', w') \<Rightarrow> (gs[i := g'], w'))
        else (gs, w))"

fun run_schedule ::
  "context \<Rightarrow> string \<Rightarrow> attrs \<Rightarrow> nat list \<Rightarrow> goroutine list \<times> world \<Rightarrow> goroutine list \<times> world" where
  "run_schedule ctx name attributes [] cfg = cfg"
| "run_schedule ctx name attributes (i # sch) cfg =
     run_schedule ctx name attributes sch (sched_step ctx name attributes i cfg)"

definition spawn :: "nat \<Rightarrow> nat \<Rightarrow> goroutine list" where
  "spawn N M = replicate N (M, AtLookup)"

definition all_done :: "goroutine list \<Rightarrow> bool" where
  "all_done gs = list_all (\<lambda>g. fst g = 0) gs"

fun work :: "goroutine \<Rightarrow> nat" where
  "work (k, AtLookup) = 3 * k"
| "work (k, AtLoadOrStore) = 3 * k - 1"
| "work (k, AtAdd) = 3 * k - 2"

definition pool_inv :: "string \<Rightarrow> int64 \<Rightarrow> goroutine list \<times> world \<Rightarrow> bool" where
  "pool_inv name tot cfg =
     (case cfg of (gs, w) \<Rightarrow>
        counter_handle w name \<noteq> None
      \<and> (\<forall>g \<in> set gs. snd g = AtAdd \<longrightarrow> map_of (localValues w) name \<noteq> None)
      \<and> (\<forall>g \<in> set gs. snd g \<noteq> AtLookup \<longrightarrow> 0 < fst g)
      \<and> GetMetricValue name w + of_nat (sum_list (map fst gs)) = tot)"

section \<open>Registration: copy on write\<close>

lemma copy_entries_map_of:
  "distinct (map fst xs) \<Longrightarrow> map_of (copy_entries xs acc) = map_of acc ++ map_of xs"
proof (induction xs arbitrary: acc)
  case Nil
  then show ?case by simp
next
  case (Cons p xs)
  obtain k v where p: "p = (k, v)" by (cases p)
  from Cons.prems p have d: "distinct (map fst xs)" and nk: "k \<notin> fst ` set xs" by auto
  have "map_of (copy_entries (p # xs) acc) = map_of (AList.update k v acc) ++ map_of xs"
    using Cons.IH [OF d] p by simp
  also have "\<dots> = (map_of acc)(k \<mapsto> v) ++ map_of xs"
    by (simp add: update_conv')
  also have "\<dots> = map_of acc ++ map_of (p # xs)"
  proof (rule ext)
    fix x
    have none: "map_of xs k = None"
      using nk by (simp add: map_of_eq_None_iff)
    show "((map_of acc)(k \<mapsto> v) ++ map_of xs) x = (map_of acc ++ map_of (p # xs)) x"
      using none by (cases "x = k") (simp_all add: map_add_def p split: option.splits)
  qed
  finally show ?case .
qed

lemma copy_entries_distinct:
  "distinct (map fst acc) \<Longrightarrow> distinct (map fst (copy_entries xs acc))"
  by (induction xs arbitrary: acc) (auto simp: distinct_update)


lemma register_lookup:
  assumes "registry_wf w"
  shows "lookup_registry (register name inst w) = (lookup_registry w)(name \<mapsto> inst)"
proof (cases "registry w")
  case None
  then show ?thesis
    by (auto simp: register_def lookup_registry_def getRegistryMap_def Let_def log_global_def
        log_msg_def update_conv')
next
  case (Some a)
  with assms have d: "distinct (map fst (snapshots w a))"
    by (simp add: registry_wf_def)
  have "map_of (copy_entries (snapshots w a) []) = map_of (snapshots w a)"
    using copy_entries_map_of [OF d, of "[]"] by simp
  with Some show ?thesis
    by (auto simp: register_def lookup_registry_def getRegistryMap_def Let_def log_global_def
        log_msg_def update_conv')
qed

lemma register_wf:
  assumes "registry_wf w"
  shows "registry_wf (register name inst w)"
proof -
  have "distinct (map fst (AList.update name inst (copy_entries m [])))" for m
    by (simp add: distinct_update copy_entries_distinct)
  then show ?thesis
    by (simp add: register_def registry_wf_def Let_def log_global_def log_msg_def)
qed

lemma register_logs:
  assumes "registry_wf w"
  shows "logs (register name inst w) =
         logs w @ (if lookup_registry w name \<noteq> None then [overwrite_warning w name] else [])"
proof (cases "registry w")
  case None
  then show ?thesis
    by (simp add: register_def lookup_registry_def getRegistryMap_def Let_def)
next
  case (Some a)
  with assms have d: "distinct (map fst (snapshots w a))"
    by (simp add: registry_wf_def)
  have "map_of (copy_entries (snapshots w a) []) = map_of (snapshots w a)"
    using copy_entries_map_of [OF d, of "[]"] by simp
  with Some show ?thesis
    by (simp add: register_def lookup_registry_def getRegistryMap_def Let_def log_global_def
        log_msg_def overwrite_warning_def)
qed

lemma register_store:
  "registry (register name inst w) = Some (next_addr w) \<and>
   next_addr (register name inst w) = Suc (next_addr w) \<and>
   (\<forall>a. a \<noteq> next_addr w \<longrightarrow> snapshots (register name inst w) a = snapshots w a)"
  by (simp add: register_def Let_def log_global_def log_msg_def)

text \<open>
  C6. A registration publishes a new snapshot that is the previous map extended with
  \<open>name \<mapsto> inst\<close>: the entries of all other keys are carried over, an existing entry for
  \<open>name\<close> is replaced by the new instrument and a warning is logged (the operation returns
  normally), and the new snapshot lives at a fresh address, so that no snapshot allocated
  before, the previous one in particular, is changed.
\<close>

theorem register_copy_on_write:
  assumes "registry_wf w"
  shows "lookup_registry (register name inst w) = (lookup_registry w)(name \<mapsto> inst)
       \<and> (\<forall>k. k \<noteq> name \<longrightarrow> lookup_registry (register name inst w) k = lookup_registry w k)
       \<and> lookup_registry (register name inst w) name = Some inst
       \<and> logs (register name inst w) =
           logs w @ (if lookup_registry w name \<noteq> None then [overwrite_warning w name] else [])
       \<and> registry (register name inst w) = Some (next_addr w)
       \<and> registry (register name inst w) \<noteq> registry w
       \<and> (\<forall>a < next_addr w. snapshots (register name inst w) a = snapshots w a)
       \<and> (\<forall>a. registry w = Some a \<longrightarrow> snapshots (register name inst w) a = snapshots w a)
       \<and> registry_wf (register name inst w)"
proof -
  have fresh: "registry w \<noteq> Some (next_addr w)"
    using assms by (auto simp: registry_wf_def split: option.splits)
  have old: "\<forall>a. registry w = Some a \<longrightarrow> a < next_addr w"
    using assms by (auto simp: registry_wf_def split: option.splits)
  show ?thesis
    using register_lookup [OF assms, of name inst] register_logs [OF assms, of name inst]
      register_store [of name inst w] register_wf [OF assms, of name inst] fresh old
    by auto
qed

lemma registry_wf_world0: "registry_wf world0"
  by (simp add: registry_wf_def world0_def)

theorem register_copy_on_write_witness:
  "registry_wf (register ''a'' (counter_inst 1) world0)
   \<and> lookup_registry (register ''a'' (histogram_inst 2) (register ''a'' (counter_inst 1) world0)) ''a''
       = Some (histogram_inst 2)
   \<and> snapshots (register ''a'' (histogram_inst 2) (register ''a'' (counter_inst 1) world0)) 0
       = snapshots (register ''a'' (counter_inst 1) world0) 0
   \<and> logs (register ''a'' (histogram_inst 2) (register ''a'' (counter_inst 1) world0))
       = [overwrite_warning world0 ''a'']"
proof -
  have wf: "registry_wf (register ''a'' (counter_inst 1) world0)"
    by (rule register_wf [OF registry_wf_world0])
  have l: "lookup_registry (register ''a'' (counter_inst 1) world0) ''a'' = Some (counter_inst 1)"
    by (simp add: register_lookup [OF registry_wf_world0])
  have a: "registry (register ''a'' (counter_inst 1) world0) = Some 0"
    by (simp add: register_def Let_def world0_def)
  have lg: "logs (register ''a'' (counter_inst 1) world0) = []"
    by (simp add: register_def Let_def world0_def getRegistryMap_def)
  have ow: "overwrite_warning (register ''a'' (counter_inst 1) world0) ''a''
            = overwrite_warning world0 ''a''"
    by (simp add: overwrite_warning_def register_def Let_def world0_def getRegistryMap_def)
  show ?thesis
    using register_copy_on_write [OF wf, of "''a''" "histogram_inst 2"] wf l a lg ow
    by simp
qed


section \<open>Recording on a missing or mismatched instrument\<close>

text \<open>
  C5. When the name is not registered (which includes a registry that was never
  initialised), or is registered with an instrument whose handle for the kind asked for is
  nil, each of the three recording functions returns a world that differs from the one it
  was given in the log at most: the registry, its snapshots, the running totals and the
  list of SDK calls are the same. The functions have no error result and no panic.
\<close>

theorem record_without_instrument_is_noop:
  "((lookup_registry w name = None \<or>
      (\<exists>i. lookup_registry w name = Some i \<and> Int64Counter i = None))
     \<longrightarrow> only_logged w (AddToIntCounter ctx name v attributes w))
   \<and> ((lookup_registry w name = None \<or>
      (\<exists>i. lookup_registry w name = Some i \<and> Int64UpDownCounter i = None))
     \<longrightarrow> only_logged w (AddToInt64UpDownCounter ctx name v attributes w))
   \<and> ((lookup_registry w name = None \<or>
      (\<exists>i. lookup_registry w name = Some i \<and> Float64Histogram i = None))
     \<longrightarrow> only_logged w (RecordInFloat64Histogram ctx name x attributes w))
   \<and> (registry w = None \<longrightarrow>
        AddToIntCounter ctx name v attributes w = w
      \<and> AddToInt64UpDownCounter ctx name v attributes w = w
      \<and> RecordInFloat64Histogram ctx name x attributes w = w)"
  by (auto simp: only_logged_def AddToIntCounter_def AddToInt64UpDownCounter_def
      RecordInFloat64Histogram_def addToIntCounterImpl_def addToInt64UpDownCounterImpl_def
      recordInFloat64HistogramImpl_def lookup_registry_def getRegistryMap_def log_global_def
      log_msg_def split: option.splits)


lemma registry_wf_register_world0:
  "registry_wf (register name inst world0)"
  by (rule register_wf [OF registry_wf_world0])

theorem record_without_instrument_is_noop_witness:
  "AddToIntCounter Background ''biz.operation.error.total'' 1 [] world0 = world0
   \<and> only_logged (register ''h'' (histogram_inst 7) world0)
       (AddToIntCounter Background ''h'' 1 [] (register ''h'' (histogram_inst 7) world0))
   \<and> only_logged (register ''h'' (histogram_inst 7) world0)
       (RecordInFloat64Histogram Background ''g'' 1 [] (register ''h'' (histogram_inst 7) world0))"
proof -
  have r0: "registry world0 = None"
    by (simp add: world0_def)
  have l: "lookup_registry (register ''h'' (histogram_inst 7) world0)
           = (lookup_registry world0)(''h'' \<mapsto> histogram_inst 7)"
    by (rule register_lookup [OF registry_wf_world0])
  have l0: "lookup_registry world0 ''g'' = None"
    by (simp add: lookup_registry_def getRegistryMap_def world0_def)
  have c: "Int64Counter (histogram_inst 7) = None"
    by (simp add: histogram_inst_def)
  show ?thesis
    using record_without_instrument_is_noop [of world0 "''biz.operation.error.total''" Background 1 "[]" 1]
      record_without_instrument_is_noop
        [of "register ''h'' (histogram_inst 7) world0" "''h''" Background 1 "[]" 1]
      record_without_instrument_is_noop
        [of "register ''h'' (histogram_inst 7) world0" "''g''" Background 1 "[]" 1]
      r0 l l0 c
    by simp
qed

section \<open>Standard metrics are initialised once\<close>

lemma ready_log_global [simp]:
  "ready (log_global lv fs msg w) = ready w"
  by (simp add: ready_def registry_wf_def log_global_def log_msg_def split: option.splits)

lemma lookup_log_global [simp]:
  "lookup_registry (log_global lv fs msg w) = lookup_registry w"
  by (rule ext)
    (simp add: lookup_registry_def getRegistryMap_def log_global_def log_msg_def
      split: option.splits)

lemma Meter_register [simp]: "Meter (register name inst w) = Meter w"
  by (simp add: register_def Let_def log_global_def log_msg_def)

lemma ready_register:
  "ready w \<Longrightarrow> ready (register name inst w)"
  by (simp add: ready_def register_wf)

lemma ready_store_empty_if_nil:
  "ready w \<Longrightarrow> ready (store_empty_if_nil w)"
  by (auto simp: ready_def store_empty_if_nil_def registry_wf_def split: option.splits)

lemma lookup_store_empty_if_nil [simp]:
  "lookup_registry (store_empty_if_nil w) = lookup_registry w"
  by (rule ext) (simp add: lookup_registry_def getRegistryMap_def store_empty_if_nil_def
      split: option.splits)

lemma RegisterInt64Counter_ready:
  assumes "ready w"
  shows "ready (RegisterInt64Counter n d u w)"
    and "lookup_registry (RegisterInt64Counter n d u w)
         = (lookup_registry w)(n \<mapsto> counter_inst (projr (mkInt64Counter (the (Meter w)) n d u)))"
proof -
  from assms obtain mt where m: "Meter w = Some mt" and wf: "registry_wf w"
    and nl: "\<not> isl (mkInt64Counter mt n d u)"
    by (auto simp: ready_def total_meter_def split: option.splits)
  from nl obtain h where h: "mkInt64Counter mt n d u = Inr h"
    by (cases "mkInt64Counter mt n d u") auto
  show "ready (RegisterInt64Counter n d u w)"
    using assms m h by (simp add: RegisterInt64Counter_def ready_register)
  show "lookup_registry (RegisterInt64Counter n d u w)
         = (lookup_registry w)(n \<mapsto> counter_inst (projr (mkInt64Counter (the (Meter w)) n d u)))"
    using m h register_lookup [OF wf]
    by (simp add: RegisterInt64Counter_def counter_inst_def)
qed

lemma RegisterFloat64Histogram_ready:
  assumes "ready w"
  shows "ready (RegisterFloat64Histogram n d u w)"
    and "lookup_registry (RegisterFloat64Histogram n d u w)
         = (lookup_registry w)(n \<mapsto> histogram_inst (projr (mkFloat64Histogram (the (Meter w)) n d u)))"
proof -
  from assms obtain mt where m: "Meter w = Some mt" and wf: "registry_wf w"
    and nl: "\<not> isl (mkFloat64Histogram mt n d u)"
    by (auto simp: ready_def total_meter_def split: option.splits)
  from nl obtain h where h: "mkFloat64Histogram mt n d u = Inr h"
    by (cases "mkFloat64Histogram mt n d u") auto
  show "ready (RegisterFloat64Histogram n d u w)"
    using assms m h by (simp add: RegisterFloat64Histogram_def ready_register)
  show "lookup_registry (RegisterFloat64Histogram n d u w)
         = (lookup_registry w)(n \<mapsto> histogram_inst (projr (mkFloat64Histogram (the (Meter w)) n d u)))"
    using m h register_lookup [OF wf]
    by (simp add: RegisterFloat64Histogram_def histogram_inst_def)
qed

lemma RegisterInt64UpDownCounter_ready:
  assumes "ready w"
  shows "ready (RegisterInt64UpDownCounter n d u w)"
    and "lookup_registry (RegisterInt64UpDownCounter n d u w)
         = (lookup_registry w)(n \<mapsto> updown_inst (projr (mkInt64UpDownCounter (the (Meter w)) n d u)))"
proof -
  from assms obtain mt where m: "Meter w = Some mt" and wf: "registry_wf w"
    and nl: "\<not> isl (mkInt64UpDownCounter mt n d u)"
    by (auto simp: ready_def total_meter_def split: option.splits)
  from nl obtain h where h: "mkInt64UpDownCounter mt n d u = Inr h"
    by (cases "mkInt64UpDownCounter mt n d u") auto
  show "ready (RegisterInt64UpDownCounter n d u w)"
    using assms m h by (simp add: RegisterInt64UpDownCounter_def ready_register)
  show "lookup_registry (RegisterInt64UpDownCounter n d u w)
         = (lookup_registry w)(n \<mapsto> updown_inst (projr (mkInt64UpDownCounter (the (Meter w)) n d u)))"
    using m h register_lookup [OF wf]
    by (simp add: RegisterInt64UpDownCounter_def updown_inst_def)
qed

lemmas Register_ready =
  RegisterInt64Counter_ready RegisterFloat64Histogram_ready RegisterInt64UpDownCounter_ready
  ready_store_empty_if_nil

lemma standard_metrics_body_registers:
  assumes "ready w"
  shows "(\<forall>n \<in> set standard_counters.
            \<exists>i. lookup_registry (standard_metrics_body w) n = Some i \<and> Int64Counter i \<noteq> None)
       \<and> (\<forall>n \<in> set standard_histograms.
            \<exists>i. lookup_registry (standard_metrics_body w) n = Some i \<and> Float64Histogram i \<noteq> None)
       \<and> (\<forall>n \<in> set standard_updown_counters.
            \<exists>i. lookup_registry (standard_metrics_body w) n = Some i \<and> Int64UpDownCounter i \<noteq> None)"
  using assms
  by (simp add: standard_metrics_body_def Let_def Register_ready standard_counters_def
      standard_histograms_def standard_updown_counters_def counter_inst_def histogram_inst_def
      updown_inst_def)

lemma lookup_registry_registryOnce [simp]:
  "lookup_registry (w\<lparr>registryOnce := b\<rparr>) = lookup_registry w"
  by (rule ext) (simp add: lookup_registry_def getRegistryMap_def split: option.splits)

text \<open>
  C10. \<^verbatim>\<open>InitStandardMetrics\<close> runs its body at most once: after any invocation the once-flag
  is set, an invocation that finds the flag set returns the world it was given (so a second
  invocation, with whatever meter argument, changes nothing, the registry snapshot
  included), and the invocation that finds the flag clear, with a working meter installed,
  registers every standard metric under its kind.
\<close>

theorem InitStandardMetrics_once:
  "InitStandardMetrics m2 (InitStandardMetrics m1 w) = InitStandardMetrics m1 w
   \<and> registryOnce (InitStandardMetrics m1 w)
   \<and> (registryOnce w \<longrightarrow> InitStandardMetrics m1 w = w)
   \<and> lookup_registry (InitStandardMetrics m2 (InitStandardMetrics m1 w))
       = lookup_registry (InitStandardMetrics m1 w)
   \<and> (\<not> registryOnce w \<and> ready w \<longrightarrow>
        (\<forall>n \<in> set standard_counters.
            \<exists>i. lookup_registry (InitStandardMetrics m1 w) n = Some i \<and> Int64Counter i \<noteq> None)
      \<and> (\<forall>n \<in> set standard_histograms.
            \<exists>i. lookup_registry (InitStandardMetrics m1 w) n = Some i \<and> Float64Histogram i \<noteq> None)
      \<and> (\<forall>n \<in> set standard_updown_counters.
            \<exists>i. lookup_registry (InitStandardMetrics m1 w) n = Some i
                \<and> Int64UpDownCounter i \<noteq> None))"
proof -
  have once: "registryOnce (InitStandardMetrics m1 w)"
    by (simp add: InitStandardMetrics_def)
  have idem: "InitStandardMetrics m2 (InitStandardMetrics m1 w) = InitStandardMetrics m1 w"
    using once by (simp add: InitStandardMetrics_def [of m2])
  have noop: "registryOnce w \<longrightarrow> InitStandardMetrics m1 w = w"
    by (simp add: InitStandardMetrics_def)
  have first: "\<not> registryOnce w \<Longrightarrow>
      lookup_registry (InitStandardMetrics m1 w) = lookup_registry (standard_metrics_body w)"
    by (simp add: InitStandardMetrics_def)
  show ?thesis
    using once idem noop first standard_metrics_body_registers [of w]
    by simp
qed


theorem InitStandardMetrics_once_witness:
  "\<not> registryOnce world_with_meter \<and> ready world_with_meter
   \<and> (\<exists>i. lookup_registry (InitStandardMetrics simple_meter world_with_meter)
              ''biz.operation.error.total'' = Some i \<and> Int64Counter i \<noteq> None)
   \<and> (\<exists>i. lookup_registry (InitStandardMetrics simple_meter world_with_meter)
              ''biz.operation.duration'' = Some i \<and> Float64Histogram i \<noteq> None)
   \<and> registryOnce (InitStandardMetrics simple_meter world_with_meter)
   \<and> InitStandardMetrics simple_meter (InitStandardMetrics simple_meter world_with_meter)
       = InitStandardMetrics simple_meter world_with_meter"
proof -
  have n: "\<not> registryOnce world_with_meter"
    by (simp add: world_with_meter_def world0_def)
  have r: "ready world_with_meter"
    by (simp add: ready_def world_with_meter_def world0_def registry_wf_def total_meter_def
        simple_meter_def)
  show ?thesis
    using InitStandardMetrics_once [of simple_meter simple_meter world_with_meter] n r
      InitStandardMetrics_once [of simple_meter simple_meter
        "InitStandardMetrics simple_meter world_with_meter"]
    by (simp add: standard_counters_def standard_histograms_def)
qed


section \<open>Run: effects of the recording calls\<close>

lemma prepare_parts:
  "prepare ctx name w = (run_ctx ctx name w, run_state ctx name w, run_world ctx name w)"
  by (simp add: run_ctx_def run_state_def run_world_def)

lemma run_world_eq:
  "run_world ctx name w =
     w\<lparr>next_span := Suc (next_span w), events := events w @ [TracerStart (next_span w) name]\<rparr>"
  by (simp add: run_world_def prepare_def Tracer_Start_def Let_def)

lemma run_state_eq:
  "span (run_state ctx name w) = next_span w"
  "Log (run_state ctx name w) =
     (GetLoggerFromContext ctx w)\<lparr>lfields := lfields (GetLoggerFromContext ctx w) @
        [(''trace_id'', FTraceID (next_span w)), (''span_id'', FSpanID (next_span w)),
         (''operation'', FStr name)]\<rparr>"
  "s_ctx (run_state ctx name w) = run_ctx ctx name w"
  by (simp_all add: run_state_def run_ctx_def prepare_def Tracer_Start_def Let_def)

lemma emit_simps [simp]:
  "events (emit e w) = events w @ [e]"
  "localValues (emit e w) = localValues w"
  "clock (emit e w) = clock w"
  "lookup_registry (emit e w) = lookup_registry w"
  "logs (emit e w) = logs w"
  by (simp_all add: emit_def lookup_registry_def getRegistryMap_def fun_eq_iff
      split: option.splits)

lemma log_msg_simps [simp]:
  "events (log_msg l lv fs msg w) = events w"
  "localValues (log_msg l lv fs msg w) = localValues w"
  "clock (log_msg l lv fs msg w) = clock w"
  "lookup_registry (log_msg l lv fs msg w) = lookup_registry w"
  by (simp_all add: log_msg_def lookup_registry_def getRegistryMap_def fun_eq_iff
      split: option.splits)

lemma handle_simps [simp]:
  "counter_handle (emit e w) = counter_handle w"
  "histogram_handle (emit e w) = histogram_handle w"
  "counter_handle (log_msg l lv fs msg w) = counter_handle w"
  "histogram_handle (log_msg l lv fs msg w) = histogram_handle w"
  by (simp_all add: counter_handle_def histogram_handle_def fun_eq_iff)

lemma GetMetricValue_cong:
  "localValues w' = localValues w \<Longrightarrow> GetMetricValue n w' = GetMetricValue n w"
  by (simp add: GetMetricValue_def)

lemma GetMetricValue_simps [simp]:
  "GetMetricValue n (emit e w) = GetMetricValue n w"
  "GetMetricValue n (log_msg l lv fs msg w) = GetMetricValue n w"
  by (simp_all add: GetMetricValue_def)

lemma IncCounter_events:
  "events (IncCounter s n a w) =
     events w @ (case counter_handle w n of None \<Rightarrow> [] | Some c \<Rightarrow> [CounterAdd c 1 a])"
  by (simp add: IncCounter_def AddToIntCounter_def addToIntCounterImpl_def counter_handle_def
      lookup_registry_def log_global_def log_msg_def atomic_Add_def LoadOrStore_def
      split: option.splits)

lemma IncCounter_value:
  "GetMetricValue n (IncCounter s n a w) =
     GetMetricValue n w + (if counter_handle w n = None then 0 else 1)"
  by (simp add: IncCounter_def AddToIntCounter_def addToIntCounterImpl_def counter_handle_def
      lookup_registry_def log_global_def log_msg_def atomic_Add_def LoadOrStore_def
      GetMetricValue_def update_conv' split: option.splits)

lemma IncCounter_other_value:
  "m \<noteq> n \<Longrightarrow> GetMetricValue m (IncCounter s n a w) = GetMetricValue m w"
  by (simp add: IncCounter_def AddToIntCounter_def addToIntCounterImpl_def
      log_global_def log_msg_def atomic_Add_def LoadOrStore_def
      GetMetricValue_def update_conv' split: option.splits)

lemma IncCounter_keeps [simp]:
  "clock (IncCounter s n a w) = clock w"
  "lookup_registry (IncCounter s n a w) = lookup_registry w"
  by (simp_all add: IncCounter_def AddToIntCounter_def addToIntCounterImpl_def
      lookup_registry_def getRegistryMap_def log_global_def log_msg_def atomic_Add_def
      LoadOrStore_def fun_eq_iff split: option.splits)

lemma IncCounter_handles [simp]:
  "counter_handle (IncCounter s n a w) = counter_handle w"
  "histogram_handle (IncCounter s n a w) = histogram_handle w"
  by (simp_all add: counter_handle_def histogram_handle_def fun_eq_iff)

lemma RecordHistogram_events:
  "events (RecordHistogram s n v a w) =
     events w @ (case histogram_handle w n of None \<Rightarrow> [] | Some h \<Rightarrow> [HistogramRecord h v a])"
  by (simp add: RecordHistogram_def RecordInFloat64Histogram_def recordInFloat64HistogramImpl_def
      histogram_handle_def lookup_registry_def log_global_def log_msg_def
      split: option.splits)

lemma RecordHistogram_keeps [simp]:
  "clock (RecordHistogram s n v a w) = clock w"
  "localValues (RecordHistogram s n v a w) = localValues w"
  "lookup_registry (RecordHistogram s n v a w) = lookup_registry w"
  by (simp_all add: RecordHistogram_def RecordInFloat64Histogram_def
      recordInFloat64HistogramImpl_def lookup_registry_def getRegistryMap_def log_global_def
      log_msg_def fun_eq_iff split: option.splits)

lemma RecordHistogram_handles [simp]:
  "counter_handle (RecordHistogram s n v a w) = counter_handle w"
  "histogram_handle (RecordHistogram s n v a w) = histogram_handle w"
  "GetMetricValue m (RecordHistogram s n v a w) = GetMetricValue m w"
  by (simp_all add: counter_handle_def histogram_handle_def GetMetricValue_def fun_eq_iff)

section \<open>Run: the three outcomes\<close>

lemma Run_panicked:
  assumes "fn (run_ctx ctx name w) (run_state ctx name w) (run_world ctx name w)
           = (Panicked r, w2)"
  shows "Run ctx name fn w =
     (Returned (Some (panic_error r)),
      emit (SpanEnd (next_span w))
        (IncCounter (run_state ctx name w) ''biz.operation.error.total'' [(''operation'', name)]
          (log_msg (Log (run_state ctx name w)) ErrorLevel []
             (''Panic recovered during operation: '' @ fmt_v r)
            (emit (SpanSetStatus (next_span w) Error ''panic occurred'')
              (emit (SpanRecordError (next_span w) (panic_error r) True)
                (RecordHistogram (run_state ctx name w) ''biz.operation.duration''
                   (Seconds (clock w2 - clock w)) [(''operation'', name)] w2))))))"
  using assms
  by (simp add: Run_def prepare_parts Let_def defer_duration_def defer_recover_def
      defer_span_End_def run_state_eq run_world_eq)

lemma Run_returned:
  assumes "fn (run_ctx ctx name w) (run_state ctx name w) (run_world ctx name w)
           = (Returned err, w2)"
  shows "Run ctx name fn w =
     (Returned err,
      emit (SpanEnd (next_span w))
        (RecordHistogram (run_state ctx name w) ''biz.operation.duration''
           (Seconds (clock (result_handling name (run_state ctx name w) err w2) - clock w))
           [(''operation'', name)]
           (result_handling name (run_state ctx name w) err w2)))"
  using assms
  by (simp add: Run_def prepare_parts Let_def defer_duration_def defer_recover_def
      defer_span_End_def run_state_eq run_world_eq)


lemma run_world_simps [simp]:
  "events (run_world ctx name w) = events w @ [TracerStart (next_span w) name]"
  "localValues (run_world ctx name w) = localValues w"
  "clock (run_world ctx name w) = clock w"
  "lookup_registry (run_world ctx name w) = lookup_registry w"
  "GetMetricValue n (run_world ctx name w) = GetMetricValue n w"
  "counter_handle (run_world ctx name w) = counter_handle w"
  "histogram_handle (run_world ctx name w) = histogram_handle w"
  by (simp_all add: run_world_eq lookup_registry_def getRegistryMap_def GetMetricValue_def
      counter_handle_def histogram_handle_def fun_eq_iff split: option.splits)

lemma clock_update_simps [simp]:
  "lookup_registry (w\<lparr>clock := t\<rparr>) = lookup_registry w"
  "counter_handle (w\<lparr>clock := t\<rparr>) = counter_handle w"
  "histogram_handle (w\<lparr>clock := t\<rparr>) = histogram_handle w"
  "GetMetricValue n (w\<lparr>clock := t\<rparr>) = GetMetricValue n w"
  by (simp_all add: lookup_registry_def getRegistryMap_def GetMetricValue_def
      counter_handle_def histogram_handle_def fun_eq_iff split: option.splits)

lemma result_handling_events:
  "events (result_handling name s err w) =
     events w @ (case err of
                   None \<Rightarrow> [SpanSetStatus (span s) Ok ''success'']
                 | Some e \<Rightarrow> [SpanRecordError (span s) e False,
                              SpanSetStatus (span s) Error (Error_msg e)]
                             @ error_increment w name)"
  by (simp add: result_handling_def IncCounter_events error_increment_def
      split: option.splits)

lemma result_handling_keeps [simp]:
  "clock (result_handling name s err w) = clock w"
  "histogram_handle (result_handling name s err w) = histogram_handle w"
  "counter_handle (result_handling name s err w) = counter_handle w"
  by (simp_all add: result_handling_def split: option.splits)

lemma result_handling_value:
  "GetMetricValue ''biz.operation.error.total'' (result_handling name s err w) =
     GetMetricValue ''biz.operation.error.total'' w
       + (if err = None \<or> counter_handle w ''biz.operation.error.total'' = None then 0 else 1)"
  by (simp add: result_handling_def IncCounter_value split: option.splits)

lemma result_handling_None_values:
  "localValues (result_handling name s None w) = localValues w"
  by (simp add: result_handling_def)

lemma world_registered_lookup:
  "lookup_registry world_registered =
     ((lookup_registry world_with_meter)
        (''biz.operation.error.total'' \<mapsto> counter_inst 1))
        (''biz.operation.duration'' \<mapsto> histogram_inst 2)"
proof -
  have wf0: "registry_wf world_with_meter"
    by (simp add: registry_wf_def world_with_meter_def world0_def)
  have wf1: "registry_wf (register ''biz.operation.error.total'' (counter_inst 1) world_with_meter)"
    by (rule register_wf [OF wf0])
  show ?thesis
    unfolding world_registered_def
    by (simp only: register_lookup [OF wf1] register_lookup [OF wf0])
qed

lemma localValues_register [simp]: "localValues (register name inst w) = localValues w"
  by (simp add: register_def Let_def log_global_def log_msg_def)

lemma events_register [simp]: "events (register name inst w) = events w"
  by (simp add: register_def Let_def log_global_def log_msg_def)

lemma next_span_register [simp]: "next_span (register name inst w) = next_span w"
  by (simp add: register_def Let_def log_global_def log_msg_def)

lemma clock_register [simp]: "clock (register name inst w) = clock w"
  by (simp add: register_def Let_def log_global_def log_msg_def)

lemma world_with_meter_simps [simp]:
  "events world_with_meter = []"
  "localValues world_with_meter = []"
  "next_span world_with_meter = 0"
  "clock world_with_meter = 0"
  "lookup_registry world_with_meter = (\<lambda>n. None)"
  "counter_handle world_with_meter n = None"
  "histogram_handle world_with_meter n = None"
  "GetMetricValue n world_with_meter = 0"
  by (simp_all add: world_with_meter_def world0_def lookup_registry_def getRegistryMap_def
      counter_handle_def histogram_handle_def GetMetricValue_def fun_eq_iff)

lemma world_registered_simps [simp]:
  "events world_registered = []"
  "localValues world_registered = []"
  "next_span world_registered = 0"
  "clock world_registered = 0"
  "counter_handle world_registered ''biz.operation.error.total'' = Some 1"
  "histogram_handle world_registered ''biz.operation.duration'' = Some 2"
  "GetMetricValue n world_registered = 0"
proof -
  show "events world_registered = []" "localValues world_registered = []"
    "next_span world_registered = 0" "clock world_registered = 0"
    by (simp_all add: world_registered_def)
  then show "GetMetricValue n world_registered = 0"
    by (simp add: GetMetricValue_def)
  show "counter_handle world_registered ''biz.operation.error.total'' = Some 1"
    by (simp add: counter_handle_def world_registered_lookup counter_inst_def)
  show "histogram_handle world_registered ''biz.operation.duration'' = Some 2"
    by (simp add: histogram_handle_def world_registered_lookup histogram_inst_def)
qed

text \<open>
  C1 (amended). When \<open>fn\<close> panics, \<open>Run\<close> returns: its result is the error made from the
  panic value, never the panic. After what \<open>fn\<close> left behind, the SDK sees the duration
  sample, the error recorded on the span with a stack trace, the span status set to error,
  the increment of the error counter and the end of the span, in this order. The increment
  reaches the counter when \<^verbatim>\<open>biz.operation.error.total\<close> is registered with a counter handle:
  then there is one \<open>CounterAdd\<close> of 1 tagged with the operation and the running total
  grows by 1. When it is not registered nothing is counted.
\<close>

theorem Run_panic_recovered:
  assumes "fn (run_ctx ctx name w) (run_state ctx name w) (run_world ctx name w)
           = (Panicked r, w2)"
  shows "fst (Run ctx name fn w) = Returned (Some (panic_error r))
       \<and> events (snd (Run ctx name fn w)) =
           events w2 @ duration_sample w2 name (Seconds (clock w2 - clock w))
             @ [SpanRecordError (next_span w) (panic_error r) True,
                SpanSetStatus (next_span w) Error ''panic occurred'']
             @ error_increment w2 name @ [SpanEnd (next_span w)]
       \<and> GetMetricValue ''biz.operation.error.total'' (snd (Run ctx name fn w)) =
           GetMetricValue ''biz.operation.error.total'' w2
             + (if counter_handle w2 ''biz.operation.error.total'' = None then 0 else 1)
       \<and> (\<forall>c. counter_handle w2 ''biz.operation.error.total'' = Some c \<longrightarrow>
             error_increment w2 name = [CounterAdd c 1 [(''operation'', name)]])
       \<and> (counter_handle w2 ''biz.operation.error.total'' = None \<longrightarrow>
             error_increment w2 name = [])"
  by (simp add: Run_panicked [where fn = fn and ctx = ctx and name = name and w = w, OF assms]
      IncCounter_events IncCounter_value RecordHistogram_events duration_sample_def
      error_increment_def)

theorem Run_panic_recovered_witness:
  "fn_panics (run_ctx Background ''op'' world_registered)
      (run_state Background ''op'' world_registered) (run_world Background ''op'' world_registered)
     = (Panicked (PanicValue ''oops''), run_world Background ''op'' world_registered)
   \<and> fst (Run Background ''op'' fn_panics world_registered)
       = Returned (Some (Errorf ''panic recovered in o11y.Run: oops''))
   \<and> GetMetricValue ''biz.operation.error.total''
        (snd (Run Background ''op'' fn_panics world_registered)) = 1
   \<and> events (snd (Run Background ''op'' fn_panics world_registered)) =
       [TracerStart 0 ''op'', HistogramRecord 2 (Seconds 0) [(''operation'', ''op'')],
        SpanRecordError 0 (Errorf ''panic recovered in o11y.Run: oops'') True,
        SpanSetStatus 0 Error ''panic occurred'',
        CounterAdd 1 1 [(''operation'', ''op'')], SpanEnd 0]"
proof -
  have h: "fn_panics (run_ctx Background ''op'' world_registered)
      (run_state Background ''op'' world_registered) (run_world Background ''op'' world_registered)
     = (Panicked (PanicValue ''oops''), run_world Background ''op'' world_registered)"
    by (simp add: fn_panics_def)
  show ?thesis
    using Run_panic_recovered [where fn = fn_panics and ctx = Background and name = "''op''"
        and w = world_registered, OF h] h
    by (simp add: panic_error_def duration_sample_def error_increment_def)
qed

text \<open>
  The claim as stated fails after \<^verbatim>\<open>Init\<close> with metrics disabled (the set-up of
  \<^verbatim>\<open>TestRun_Panic\<close>): the registry is nil, the increment returns at its first guard, and the
  running total is what it was.
\<close>

theorem Run_panic_counterexample:
  "\<not> (GetMetricValue ''biz.operation.error.total''
         (snd (Run Background ''test_panic'' fn_panics world_with_meter))
       = GetMetricValue ''biz.operation.error.total'' world_with_meter + 1)
   \<and> filter is_CounterAdd (events (snd (Run Background ''test_panic'' fn_panics world_with_meter)))
       = []"
proof -
  have h: "fn_panics (run_ctx Background ''test_panic'' world_with_meter)
      (run_state Background ''test_panic'' world_with_meter)
      (run_world Background ''test_panic'' world_with_meter)
     = (Panicked (PanicValue ''oops''), run_world Background ''test_panic'' world_with_meter)"
    by (simp add: fn_panics_def)
  show ?thesis
    by (simp add: Run_panicked [where fn = fn_panics and ctx = Background
          and name = "''test_panic''" and w = world_with_meter, OF h]
        IncCounter_events IncCounter_value RecordHistogram_events)
qed


text \<open>
  C2 (amended). When \<open>fn\<close> returns the error \<open>e\<close>, \<open>Run\<close> returns that same \<open>e\<close>. After what
  \<open>fn\<close> left behind, the SDK sees \<open>e\<close> recorded on the span, the span status set to error
  with the message of \<open>e\<close>, the increment of the error counter, the duration sample and the
  end of the span. The increment reaches the counter when \<^verbatim>\<open>biz.operation.error.total\<close> is
  registered with a counter handle: then there is one \<open>CounterAdd\<close> of 1 tagged with the
  operation name and the running total grows by 1. When it is not registered nothing is
  counted.
\<close>

theorem Run_error_returned:
  assumes "fn (run_ctx ctx name w) (run_state ctx name w) (run_world ctx name w)
           = (Returned (Some e), w2)"
  shows "fst (Run ctx name fn w) = Returned (Some e)
       \<and> events (snd (Run ctx name fn w)) =
           events w2
             @ [SpanRecordError (next_span w) e False,
                SpanSetStatus (next_span w) Error (Error_msg e)]
             @ error_increment w2 name
             @ duration_sample w2 name (Seconds (clock w2 - clock w))
             @ [SpanEnd (next_span w)]
       \<and> GetMetricValue ''biz.operation.error.total'' (snd (Run ctx name fn w)) =
           GetMetricValue ''biz.operation.error.total'' w2
             + (if counter_handle w2 ''biz.operation.error.total'' = None then 0 else 1)
       \<and> (\<forall>c. counter_handle w2 ''biz.operation.error.total'' = Some c \<longrightarrow>
             error_increment w2 name = [CounterAdd c 1 [(''operation'', name)]])
       \<and> (counter_handle w2 ''biz.operation.error.total'' = None \<longrightarrow>
             error_increment w2 name = [])"
  by (simp add: Run_returned [where fn = fn and ctx = ctx and name = name and w = w, OF assms]
      result_handling_events result_handling_value RecordHistogram_events run_state_eq
      duration_sample_def error_increment_def)

theorem Run_error_returned_witness:
  "fn_fails (run_ctx Background ''op'' world_registered)
      (run_state Background ''op'' world_registered) (run_world Background ''op'' world_registered)
     = (Returned (Some (CallerError 0 ''business error'')),
        (run_world Background ''op'' world_registered)\<lparr>clock := 5\<rparr>)
   \<and> fst (Run Background ''op'' fn_fails world_registered)
       = Returned (Some (CallerError 0 ''business error''))
   \<and> GetMetricValue ''biz.operation.error.total''
        (snd (Run Background ''op'' fn_fails world_registered)) = 1
   \<and> events (snd (Run Background ''op'' fn_fails world_registered)) =
       [TracerStart 0 ''op'',
        SpanRecordError 0 (CallerError 0 ''business error'') False,
        SpanSetStatus 0 Error ''business error'',
        CounterAdd 1 1 [(''operation'', ''op'')],
        HistogramRecord 2 (Seconds 5) [(''operation'', ''op'')], SpanEnd 0]"
proof -
  have h: "fn_fails (run_ctx Background ''op'' world_registered)
      (run_state Background ''op'' world_registered) (run_world Background ''op'' world_registered)
     = (Returned (Some (CallerError 0 ''business error'')),
        (run_world Background ''op'' world_registered)\<lparr>clock := 5\<rparr>)"
    by (simp add: fn_fails_def)
  have c: "counter_handle ((run_world Background ''op'' world_registered)\<lparr>clock := 5\<rparr>)
             ''biz.operation.error.total'' = Some 1"
    "histogram_handle ((run_world Background ''op'' world_registered)\<lparr>clock := 5\<rparr>)
             ''biz.operation.duration'' = Some 2"
    "GetMetricValue ''biz.operation.error.total''
       ((run_world Background ''op'' world_registered)\<lparr>clock := 5\<rparr>) = 0"
    by simp_all
  show ?thesis
    using Run_error_returned [where fn = fn_fails and ctx = Background and name = "''op''"
        and w = world_registered, OF h] h c
    by (simp add: duration_sample_def error_increment_def)
qed

text \<open>
  The claim as stated fails after \<^verbatim>\<open>Init\<close> with metrics disabled (the set-up of
  \<^verbatim>\<open>TestRun_Error\<close>): the error counter is not registered and no increment is counted.
\<close>

theorem Run_error_counterexample:
  "\<not> (GetMetricValue ''biz.operation.error.total''
         (snd (Run Background ''test_error'' fn_fails world_with_meter))
       = GetMetricValue ''biz.operation.error.total'' world_with_meter + 1)
   \<and> filter is_CounterAdd (events (snd (Run Background ''test_error'' fn_fails world_with_meter)))
       = []"
proof -
  have h: "fn_fails (run_ctx Background ''test_error'' world_with_meter)
      (run_state Background ''test_error'' world_with_meter)
      (run_world Background ''test_error'' world_with_meter)
     = (Returned (Some (CallerError 0 ''business error'')),
        (run_world Background ''test_error'' world_with_meter)\<lparr>clock := 5\<rparr>)"
    by (simp add: fn_fails_def)
  have c: "counter_handle ((run_world Background ''test_error'' world_with_meter)\<lparr>clock := 5\<rparr>) n
             = None"
    "histogram_handle ((run_world Background ''test_error'' world_with_meter)\<lparr>clock := 5\<rparr>) n
             = None"
    "GetMetricValue n ((run_world Background ''test_error'' world_with_meter)\<lparr>clock := 5\<rparr>) = 0"
    for n
    by simp_all
  show ?thesis
    by (simp add: Run_returned [where fn = fn_fails and ctx = Background
          and name = "''test_error''" and w = world_with_meter, OF h]
        result_handling_events result_handling_value RecordHistogram_events c
        error_increment_def)
qed


lemma filter_samples [simp]:
  "filter is_HistogramRecord (duration_sample w name d) = duration_sample w name d"
  "filter is_HistogramRecord (error_increment w name) = []"
  "filter is_CounterAdd (duration_sample w name d) = []"
  "filter is_CounterAdd (error_increment w name) = error_increment w name"
  by (simp_all add: duration_sample_def error_increment_def split: option.splits)

text \<open>
  C3 (amended). When \<open>fn\<close> returns nil, \<open>Run\<close> returns nil. After what \<open>fn\<close> left behind,
  the SDK sees the span status set to OK, the duration sample and the end of the span; no
  counter is added to and no running total changes. The duration sample is recorded when
  \<^verbatim>\<open>biz.operation.duration\<close> is registered with a histogram handle: then there is exactly one
  \<open>HistogramRecord\<close>, tagged with the operation name. When it is not registered no sample
  is recorded.
\<close>

theorem Run_success:
  assumes "fn (run_ctx ctx name w) (run_state ctx name w) (run_world ctx name w)
           = (Returned None, w2)"
  shows "fst (Run ctx name fn w) = Returned None
       \<and> events (snd (Run ctx name fn w)) =
           events w2 @ [SpanSetStatus (next_span w) Ok ''success'']
             @ duration_sample w2 name (Seconds (clock w2 - clock w))
             @ [SpanEnd (next_span w)]
       \<and> localValues (snd (Run ctx name fn w)) = localValues w2
       \<and> filter is_CounterAdd (events (snd (Run ctx name fn w)))
           = filter is_CounterAdd (events w2)
       \<and> (\<forall>h. histogram_handle w2 ''biz.operation.duration'' = Some h \<longrightarrow>
             duration_sample w2 name (Seconds (clock w2 - clock w))
               = [HistogramRecord h (Seconds (clock w2 - clock w)) [(''operation'', name)]])
       \<and> (histogram_handle w2 ''biz.operation.duration'' = None \<longrightarrow>
             duration_sample w2 name (Seconds (clock w2 - clock w)) = [])"
  by (simp add: Run_returned [where fn = fn and ctx = ctx and name = name and w = w, OF assms]
      result_handling_events result_handling_None_values RecordHistogram_events run_state_eq
      duration_sample_def split: option.splits)

theorem Run_success_witness:
  "fn_succeeds (run_ctx Background ''op'' world_registered)
      (run_state Background ''op'' world_registered) (run_world Background ''op'' world_registered)
     = (Returned None, (run_world Background ''op'' world_registered)\<lparr>clock := 5\<rparr>)
   \<and> fst (Run Background ''op'' fn_succeeds world_registered) = Returned None
   \<and> localValues (snd (Run Background ''op'' fn_succeeds world_registered)) = []
   \<and> events (snd (Run Background ''op'' fn_succeeds world_registered)) =
       [TracerStart 0 ''op'', SpanSetStatus 0 Ok ''success'',
        HistogramRecord 2 (Seconds 5) [(''operation'', ''op'')], SpanEnd 0]"
proof -
  have h: "fn_succeeds (run_ctx Background ''op'' world_registered)
      (run_state Background ''op'' world_registered) (run_world Background ''op'' world_registered)
     = (Returned None, (run_world Background ''op'' world_registered)\<lparr>clock := 5\<rparr>)"
    by (simp add: fn_succeeds_def)
  show ?thesis
    using Run_success [where fn = fn_succeeds and ctx = Background and name = "''op''"
        and w = world_registered, OF h] h
    by (simp add: duration_sample_def)
qed

text \<open>
  The claim as stated fails when the duration histogram is not registered (\<^verbatim>\<open>Init\<close> with
  metrics disabled): no sample is recorded.
\<close>

theorem Run_success_counterexample:
  "\<not> (length (filter is_HistogramRecord
         (events (snd (Run Background ''test_success'' fn_succeeds world_with_meter)))) = 1)
   \<and> events (snd (Run Background ''test_success'' fn_succeeds world_with_meter)) =
       [TracerStart 0 ''test_success'', SpanSetStatus 0 Ok ''success'', SpanEnd 0]"
proof -
  have h: "fn_succeeds (run_ctx Background ''test_success'' world_with_meter)
      (run_state Background ''test_success'' world_with_meter)
      (run_world Background ''test_success'' world_with_meter)
     = (Returned None, (run_world Background ''test_success'' world_with_meter)\<lparr>clock := 5\<rparr>)"
    by (simp add: fn_succeeds_def)
  show ?thesis
    by (simp add: Run_returned [where fn = fn_succeeds and ctx = Background
          and name = "''test_success''" and w = world_with_meter, OF h]
        result_handling_events RecordHistogram_events run_state_eq)
qed

text \<open>
  C4 (amended). Whatever the outcome of \<open>fn\<close> (nil, an error or a panic), \<open>Run\<close> returns, and
  the order is fixed. The span is started before the logger is derived: the world handed
  to \<open>fn\<close> already holds the \<open>TracerStart\<close>, and the logger in the \<open>State\<close> carries the
  identifiers of that span. The start time is read before \<open>fn\<close> is called and the duration
  is taken after it has completed: the sample is the clock \<open>fn\<close> left minus the clock at
  the call. Everything \<open>Run\<close> does afterwards follows what \<open>fn\<close> did, the duration is
  recorded once among it (after the result handling, before the recovery of a panic), and
  the end of the span comes last. The sample is recorded when \<^verbatim>\<open>biz.operation.duration\<close> is
  registered with a histogram handle; when it is not, no sample is recorded.
\<close>

theorem Run_ordering:
  assumes "fn (run_ctx ctx name w) (run_state ctx name w) (run_world ctx name w) = (out, w2)"
  shows "events (run_world ctx name w) = events w @ [TracerStart (next_span w) name]
       \<and> Log (run_state ctx name w) =
           (GetLoggerFromContext ctx w)\<lparr>lfields := lfields (GetLoggerFromContext ctx w) @
              [(''trace_id'', FTraceID (next_span w)), (''span_id'', FSpanID (next_span w)),
               (''operation'', FStr name)]\<rparr>
       \<and> (\<exists>err. fst (Run ctx name fn w) = Returned err)
       \<and> events (snd (Run ctx name fn w)) =
           events w2
             @ (case out of
                  Returned None \<Rightarrow> [SpanSetStatus (next_span w) Ok ''success'']
                | Returned (Some e) \<Rightarrow>
                    [SpanRecordError (next_span w) e False,
                     SpanSetStatus (next_span w) Error (Error_msg e)] @ error_increment w2 name
                | Panicked r \<Rightarrow> [])
             @ duration_sample w2 name (Seconds (clock w2 - clock w))
             @ (case out of
                  Returned err \<Rightarrow> []
                | Panicked r \<Rightarrow>
                    [SpanRecordError (next_span w) (panic_error r) True,
                     SpanSetStatus (next_span w) Error ''panic occurred'']
                    @ error_increment w2 name)
             @ [SpanEnd (next_span w)]
       \<and> filter is_HistogramRecord (drop (length (events w2)) (events (snd (Run ctx name fn w))))
           = duration_sample w2 name (Seconds (clock w2 - clock w))
       \<and> last (events (snd (Run ctx name fn w))) = SpanEnd (next_span w)
       \<and> (\<forall>h. histogram_handle w2 ''biz.operation.duration'' = Some h \<longrightarrow>
             duration_sample w2 name (Seconds (clock w2 - clock w))
               = [HistogramRecord h (Seconds (clock w2 - clock w)) [(''operation'', name)]])
       \<and> (histogram_handle w2 ''biz.operation.duration'' = None \<longrightarrow>
             duration_sample w2 name (Seconds (clock w2 - clock w)) = [])"
proof (cases out)
  case (Returned err)
  note run = Run_returned [where fn = fn and ctx = ctx and name = name and w = w
      and err = err and ?w2.0 = w2, OF assms [unfolded Returned]]
  show ?thesis
  proof (cases err)
    case None
    with Returned run show ?thesis
      by (simp add: result_handling_events RecordHistogram_events run_state_eq
          duration_sample_def split: option.splits)
  next
    case (Some e)
    with Returned run show ?thesis
      by (simp add: result_handling_events RecordHistogram_events run_state_eq
          duration_sample_def error_increment_def split: option.splits)
  qed
next
  case (Panicked r)
  note run = Run_panicked [where fn = fn and ctx = ctx and name = name and w = w
      and r = r and ?w2.0 = w2, OF assms [unfolded Panicked]]
  with Panicked show ?thesis
    by (simp add: IncCounter_events RecordHistogram_events run_state_eq
        duration_sample_def error_increment_def split: option.splits)
qed

theorem Run_ordering_witness:
  "fn_panics (run_ctx Background ''job'' world_registered)
      (run_state Background ''job'' world_registered)
      (run_world Background ''job'' world_registered)
     = (Panicked (PanicValue ''oops''), run_world Background ''job'' world_registered)
   \<and> events (snd (Run Background ''job'' fn_panics world_registered)) =
       [TracerStart 0 ''job'', HistogramRecord 2 (Seconds 0) [(''operation'', ''job'')],
        SpanRecordError 0 (panic_error (PanicValue ''oops'')) True,
        SpanSetStatus 0 Error ''panic occurred'',
        CounterAdd 1 1 [(''operation'', ''job'')], SpanEnd 0]
   \<and> last (events (snd (Run Background ''job'' fn_panics world_registered))) = SpanEnd 0"
proof -
  have h: "fn_panics (run_ctx Background ''job'' world_registered)
      (run_state Background ''job'' world_registered)
      (run_world Background ''job'' world_registered)
     = (Panicked (PanicValue ''oops''), run_world Background ''job'' world_registered)"
    by (simp add: fn_panics_def)
  show ?thesis
    using Run_ordering [where fn = fn_panics and ctx = Background and name = "''job''"
        and w = world_registered, OF h] h
    by (simp add: duration_sample_def error_increment_def)
qed

text \<open>
  The claim as stated fails when the duration histogram is not registered: in none of the
  outcomes is a sample recorded, here for a callback that panics.
\<close>

theorem Run_ordering_counterexample:
  "\<not> (length (filter is_HistogramRecord
         (events (snd (Run Background ''job'' fn_panics world_with_meter)))) = 1)
   \<and> events (snd (Run Background ''job'' fn_panics world_with_meter)) =
       [TracerStart 0 ''job'', SpanRecordError 0 (panic_error (PanicValue ''oops'')) True,
        SpanSetStatus 0 Error ''panic occurred'', SpanEnd 0]"
proof -
  have h: "fn_panics (run_ctx Background ''job'' world_with_meter)
      (run_state Background ''job'' world_with_meter)
      (run_world Background ''job'' world_with_meter)
     = (Panicked (PanicValue ''oops''), run_world Background ''job'' world_with_meter)"
    by (simp add: fn_panics_def)
  show ?thesis
    by (simp add: Run_panicked [where fn = fn_panics and ctx = Background
          and name = "''job''" and w = world_with_meter, OF h]
        IncCounter_events RecordHistogram_events run_state_eq)
qed


section \<open>SetBaggage\<close>








section \<open>Provider construction: rollback\<close>

text \<open>
  C9. With the enabled switch on and the resource built: when the tracing set-up fails,
  \<open>New\<close> calls the shutdown of logging on the world the tracing set-up left, and returns
  that error and no provider; the metrics set-up is not reached. When tracing succeeds and
  the metrics set-up fails, \<open>New\<close> calls the shutdown of tracing and then, on the world that
  left, the shutdown of logging, and returns the error of the metrics set-up and no
  provider.
\<close>

theorem New_rollback:
  assumes "Enabled cfg"
    and "resource_Merge ext (Service (apply_defaults cfg)) (Version (apply_defaults cfg))
           (Environment (apply_defaults cfg)) = Inr res"
    and "setupLogging (cfg_Log (apply_defaults cfg)) w = ((logger, logShutdown), w1)"
    and "setupTracing (cfg_Trace (apply_defaults cfg)) res
           (log_msg (provider_logger (apply_defaults cfg) logger) InfoLevel []
              ''Logging initialized.'' w1)
         = ((tp, traceShutdown, terr), w2)"
  shows "(terr = Some e \<longrightarrow>
           New ext cfg setupLogging setupTracing setupMetrics w
             = ((None, Some e), snd (logShutdown Background w2)))
       \<and> (terr = None
          \<and> setupMetrics (cfg_Metric (apply_defaults cfg)) res
               (log_msg (provider_logger (apply_defaults cfg) logger) InfoLevel []
                  ''Tracing initialized.'' w2)
             = ((mp, metricShutdown, Some e), w3) \<longrightarrow>
           New ext cfg setupLogging setupTracing setupMetrics w
             = ((None, Some e),
                snd (logShutdown Background (snd (traceShutdown Background w3)))))"
proof -
  have en: "Enabled (apply_defaults cfg)"
    using assms(1) by (simp add: apply_defaults_def Let_def)
  show ?thesis
    using en assms(2,3,4)
    by (auto simp: New_def Let_def split: prod.splits)
qed


theorem New_rollback_witness:
  "fst (New test_externals test_config test_setupLogging (test_setupTracing None)
          (test_setupMetrics (Some (Errorf ''no exporter''))) world0)
     = (None, Some (Errorf ''no exporter''))
   \<and> map entry_msg (logs (snd (New test_externals test_config test_setupLogging
          (test_setupTracing None) (test_setupMetrics (Some (Errorf ''no exporter''))) world0)))
     = [''Logging initialized.'', ''Tracing initialized.'', ''tracing shut down'',
        ''logging shut down'']
   \<and> fst (New test_externals test_config test_setupLogging
          (test_setupTracing (Some (Errorf ''no tracer''))) (test_setupMetrics None) world0)
     = (None, Some (Errorf ''no tracer''))
   \<and> map entry_msg (logs (snd (New test_externals test_config test_setupLogging
          (test_setupTracing (Some (Errorf ''no tracer''))) (test_setupMetrics None) world0)))
     = [''Logging initialized.'', ''logging shut down'']"
proof -
  let ?cfg = "apply_defaults test_config"
  let ?res = "\<lparr>res_service = ''svc'', res_version = ''1.0.0'', res_environment = ''test''\<rparr>"
  let ?l = "\<lparr>lvl = InfoLevel, lfields = []\<rparr>"
  let ?w1 = "log_msg (provider_logger ?cfg ?l) InfoLevel [] ''Logging initialized.'' world0"
  let ?w2 = "log_msg (provider_logger ?cfg ?l) InfoLevel [] ''Tracing initialized.'' ?w1"
  have en: "Enabled test_config"
    by (simp add: test_config_def)
  have res: "resource_Merge test_externals (Service ?cfg) (Version ?cfg) (Environment ?cfg)
             = Inr ?res"
    by (simp add: test_externals_def test_config_def apply_defaults_def Let_def)
  have lg: "test_setupLogging (cfg_Log ?cfg) world0
            = ((?l, mark_shutdown ''logging shut down''), world0)"
    by (simp add: test_setupLogging_def)
  have tr: "test_setupTracing terr (cfg_Trace ?cfg) ?res ?w1
            = (((\<lambda>scope. 0), mark_shutdown ''tracing shut down'', terr), ?w1)" for terr
    by (simp add: test_setupTracing_def)
  have mt: "test_setupMetrics (Some (Errorf ''no exporter'')) (cfg_Metric ?cfg) ?res ?w2
            = (((\<lambda>scope. simple_meter), mark_shutdown ''metrics shut down'',
                Some (Errorf ''no exporter'')), ?w2)"
    by (simp add: test_setupMetrics_def)
  have lg0: "logs world0 = []"
    by (simp add: world0_def)
  show ?thesis
    using New_rollback [where setupMetrics = "test_setupMetrics (Some (Errorf ''no exporter''))"
        and e = "Errorf ''no exporter''" and mp = "\<lambda>scope. simple_meter"
        and metricShutdown = "mark_shutdown ''metrics shut down''" and ?w3.0 = ?w2
        and cfg = test_config and ext = test_externals and setupLogging = test_setupLogging
        and setupTracing = "test_setupTracing None" and w = world0,
        OF en res lg tr [of None]]
      New_rollback [where setupMetrics = "test_setupMetrics None"
        and e = "Errorf ''no tracer''" and mp = "\<lambda>scope. simple_meter"
        and metricShutdown = "mark_shutdown ''metrics shut down''" and ?w3.0 = ?w2
        and cfg = test_config and ext = test_externals and setupLogging = test_setupLogging
        and setupTracing = "test_setupTracing (Some (Errorf ''no tracer''))" and w = world0,
        OF en res lg tr [of "Some (Errorf ''no tracer'')"]]
      mt lg0
    by (simp add: mark_shutdown_def log_global_def log_msg_def)
qed


section \<open>Concurrent increments\<close>

lemma one_call_registered:
  assumes "counter_handle w name = Some c"
  shows "goroutine_step ctx name a (Suc k, AtLookup) w = ((Suc k, AtLoadOrStore), w1)
     \<Longrightarrow> goroutine_step ctx name a (Suc k, AtLoadOrStore) w1 = ((Suc k, AtAdd), w2)
     \<Longrightarrow> goroutine_step ctx name a (Suc k, AtAdd) w2 = ((k, AtLookup), w3)
     \<Longrightarrow> w3 = addToIntCounterImpl ctx name 1 a w"
  using assms
  by (auto simp: goroutine_step_def addToIntCounterImpl_def counter_handle_def
      lookup_registry_def split: option.splits)

lemma step_cases:
  assumes "counter_handle w name \<noteq> None"
  shows "goroutine_step ctx name a (0, p) w = ((0, p), w)"
    and "\<exists>c. goroutine_step ctx name a (Suc k, AtLookup) w
           = ((Suc k, AtLoadOrStore), w\<lparr>events := events w @ [CounterAdd c 1 a]\<rparr>)"
    and "goroutine_step ctx name a (Suc k, AtLoadOrStore) w = ((Suc k, AtAdd), LoadOrStore name 0 w)"
    and "goroutine_step ctx name a (Suc k, AtAdd) w = ((k, AtLookup), atomic_Add name 1 w)"
  using assms
  by (auto simp: goroutine_step_def counter_handle_def lookup_registry_def split: option.splits)


lemma counter_handle_steps [simp]:
  "counter_handle (LoadOrStore n v w) = counter_handle w"
  "counter_handle (atomic_Add n d w) = counter_handle w"
  "counter_handle (w\<lparr>events := es\<rparr>) = counter_handle w"
  by (simp_all add: counter_handle_def lookup_registry_def getRegistryMap_def LoadOrStore_def
      atomic_Add_def fun_eq_iff split: option.splits)

lemma localValues_steps:
  "map_of (localValues (LoadOrStore n 0 w)) n \<noteq> None"
  "map_of (localValues w) n \<noteq> None \<Longrightarrow> map_of (localValues (atomic_Add n d w)) n \<noteq> None"
  "map_of (localValues w) n \<noteq> None \<Longrightarrow> map_of (localValues (LoadOrStore n 0 w)) n \<noteq> None"
  by (auto simp: LoadOrStore_def atomic_Add_def update_conv' split: option.splits)

lemma GetMetricValue_steps:
  "GetMetricValue n (LoadOrStore n 0 w) = GetMetricValue n w"
  "map_of (localValues w) n \<noteq> None \<Longrightarrow>
     GetMetricValue n (atomic_Add n d w) = GetMetricValue n w + d"
  "GetMetricValue n (w\<lparr>events := es\<rparr>) = GetMetricValue n w"
  by (auto simp: GetMetricValue_def LoadOrStore_def atomic_Add_def update_conv'
      split: option.splits)

lemma sum_fst_update:
  fixes gs :: "(nat \<times> 'b) list"
  assumes "i < length gs"
  shows "sum_list (map fst (gs[i := g])) + fst (gs ! i) = sum_list (map fst gs) + fst g"
proof -
  have "sum_list ((map fst gs)[i := fst g]) = sum_list (map fst gs) + fst g - (map fst gs) ! i"
    using assms by (simp add: sum_list_update)
  moreover have "(map fst gs) ! i \<le> sum_list (map fst gs)"
    using assms by (simp add: member_le_sum_list)
  ultimately show ?thesis
    using assms by (simp add: map_update)
qed

lemma pool_inv_step:
  assumes "pool_inv name tot cfg"
  shows "pool_inv name tot (sched_step ctx name a i cfg)"
proof -
  obtain gs w where cfg: "cfg = (gs, w)" by (cases cfg)
  show ?thesis
  proof (cases "i < length gs")
    case False
    with assms cfg show ?thesis by (simp add: sched_step_def)
  next
    case True
    obtain k p where g: "gs ! i = (k, p)" by (cases "gs ! i")
    from True g have mem: "(k, p) \<in> set gs" by (metis nth_mem)
    from assms cfg have reg: "counter_handle w name \<noteq> None"
      and atadd: "\<forall>g \<in> set gs. snd g = AtAdd \<longrightarrow> map_of (localValues w) name \<noteq> None"
      and pos: "\<forall>g \<in> set gs. snd g \<noteq> AtLookup \<longrightarrow> 0 < fst g"
      and sum: "GetMetricValue name w + of_nat (sum_list (map fst gs)) = tot"
      by (simp_all add: pool_inv_def)
    have sub: "set (gs[i := g']) \<subseteq> insert g' (set gs)" for g'
      by (rule set_update_subset_insert)
    show ?thesis
    proof (cases k)
      case 0
      have "gs[i := (0, p)] = gs"
        using g 0 by (metis list_update_id)
      with 0 True g cfg assms show ?thesis
        by (simp add: sched_step_def goroutine_step_def)
    next
      case (Suc k')
      show ?thesis
      proof (cases p)
        case AtLookup
        from step_cases(2) [OF reg, of ctx a k'] obtain c where
          st: "goroutine_step ctx name a (Suc k', AtLookup) w
               = ((Suc k', AtLoadOrStore), w\<lparr>events := events w @ [CounterAdd c 1 a]\<rparr>)"
          by blast
        let ?w' = "w\<lparr>events := events w @ [CounterAdd c 1 a]\<rparr>"
        have s: "sum_list (map fst (gs[i := (Suc k', AtLoadOrStore)])) = sum_list (map fst gs)"
          using sum_fst_update [OF True, of "(Suc k', AtLoadOrStore)"] g Suc by simp
        have keep: "\<forall>g \<in> set (gs[i := (Suc k', AtLoadOrStore)]).
            snd g = AtAdd \<longrightarrow> map_of (localValues ?w') name \<noteq> None"
          using atadd sub [of "(Suc k', AtLoadOrStore)"] by auto
        have pos': "\<forall>g \<in> set (gs[i := (Suc k', AtLoadOrStore)]). snd g \<noteq> AtLookup \<longrightarrow> 0 < fst g"
          using pos sub [of "(Suc k', AtLoadOrStore)"] by auto
        have v: "GetMetricValue name ?w' = GetMetricValue name w"
          by (rule GetMetricValue_steps(3))
        show ?thesis
          using True g Suc AtLookup cfg st reg sum s v keep pos'
          by (simp add: sched_step_def pool_inv_def)
      next
        case AtLoadOrStore
        let ?w' = "LoadOrStore name 0 w"
        have s: "sum_list (map fst (gs[i := (Suc k', AtAdd)])) = sum_list (map fst gs)"
          using sum_fst_update [OF True, of "(Suc k', AtAdd)"] g Suc by simp
        have keep: "\<forall>g \<in> set (gs[i := (Suc k', AtAdd)]).
            snd g = AtAdd \<longrightarrow> map_of (localValues ?w') name \<noteq> None"
          using localValues_steps(1) [of name w] by blast
        have pos': "\<forall>g \<in> set (gs[i := (Suc k', AtAdd)]). snd g \<noteq> AtLookup \<longrightarrow> 0 < fst g"
          using pos sub [of "(Suc k', AtAdd)"] by auto
        have v: "GetMetricValue name ?w' = GetMetricValue name w"
          by (rule GetMetricValue_steps(1))
        show ?thesis
          using True g Suc AtLoadOrStore cfg step_cases(3) [OF reg, of ctx a k'] reg sum s v
            keep pos'
          by (simp add: sched_step_def pool_inv_def)
      next
        case AtAdd
        have "snd (k, p) = AtAdd"
          using AtAdd by simp
        with atadd mem have cell: "map_of (localValues w) name \<noteq> None"
          by blast
        have s: "sum_list (map fst gs) = Suc (sum_list (map fst (gs[i := (k', AtLookup)])))"
          using sum_fst_update [OF True, of "(k', AtLookup)"] g Suc by simp
        have v: "GetMetricValue name (atomic_Add name 1 w) = GetMetricValue name w + 1"
          by (rule GetMetricValue_steps(2) [OF cell])
        have keep: "\<forall>g \<in> set (gs[i := (k', AtLookup)]).
            snd g = AtAdd \<longrightarrow> map_of (localValues (atomic_Add name 1 w)) name \<noteq> None"
          using cell by (simp add: localValues_steps)
        have pos': "\<forall>g \<in> set (gs[i := (k', AtLookup)]). snd g \<noteq> AtLookup \<longrightarrow> 0 < fst g"
          using pos sub [of "(k', AtLookup)"] by auto
        show ?thesis
          using True g Suc AtAdd cfg step_cases(4) [OF reg, of ctx a k'] reg sum s v keep pos'
          by (simp add: sched_step_def pool_inv_def add.assoc)
      qed
    qed
  qed
qed

lemma pool_inv_run:
  "pool_inv name tot cfg \<Longrightarrow> pool_inv name tot (run_schedule ctx name a sch cfg)"
  by (induction sch arbitrary: cfg) (simp_all add: pool_inv_step)

lemma pool_inv_done:
  assumes "pool_inv name tot (gs, w)" and "all_done gs"
  shows "GetMetricValue name w = tot"
proof -
  from assms(2) have "sum_list (map fst gs) = 0"
    by (simp add: all_done_def list_all_iff)
  with assms(1) show ?thesis
    by (simp add: pool_inv_def)
qed

lemma pool_inv_spawn:
  assumes "counter_handle w name \<noteq> None"
  shows "pool_inv name (GetMetricValue name w + of_nat (N * M)) (spawn N M, w)"
  using assms by (simp add: pool_inv_def spawn_def sum_list_replicate)


lemma length_sched_step [simp]:
  "length (fst (sched_step ctx name a i cfg)) = length (fst cfg)"
  by (cases cfg) (simp add: sched_step_def split: prod.splits)

lemma length_run_schedule [simp]:
  "length (fst (run_schedule ctx name a sch cfg)) = length (fst cfg)"
  by (induction sch arbitrary: cfg) simp_all

lemma work_step:
  assumes "pool_inv name tot (gs, w)" and "j < length gs"
  shows "work (fst (sched_step ctx name a i (gs, w)) ! j)
         = (if i = j then work (gs ! j) - 1 else work (gs ! j))"
proof (cases "i = j")
  case False
  with assms(2) show ?thesis
    by (simp add: sched_step_def split: prod.splits)
next
  case True
  obtain k p where g: "gs ! j = (k, p)" by (cases "gs ! j")
  from assms have reg: "counter_handle w name \<noteq> None"
    by (simp add: pool_inv_def)
  from assms g have pos: "p \<noteq> AtLookup \<longrightarrow> 0 < k"
    by (auto simp: pool_inv_def dest!: nth_mem)
  show ?thesis
  proof (cases k)
    case 0
    with pos have "p = AtLookup" by simp
    with 0 True g assms(2) show ?thesis
      by (simp add: sched_step_def goroutine_step_def)
  next
    case (Suc k')
    from step_cases(2) [OF reg, of ctx a k'] obtain c where
      st: "goroutine_step ctx name a (Suc k', AtLookup) w
           = ((Suc k', AtLoadOrStore), w\<lparr>events := events w @ [CounterAdd c 1 a]\<rparr>)"
      by blast
    show ?thesis
      using True g Suc assms(2) st step_cases(3,4) [OF reg, of ctx a k']
      by (cases p) (simp_all add: sched_step_def)
  qed
qed

lemma work_run:
  assumes "pool_inv name tot cfg" and "j < length (fst cfg)"
  shows "work (fst (run_schedule ctx name a sch cfg) ! j)
         = work (fst cfg ! j) - count_list sch j"
  using assms
proof (induction sch arbitrary: cfg)
  case Nil
  then show ?case by simp
next
  case (Cons i sch)
  obtain gs w where cfg: "cfg = (gs, w)" by (cases cfg)
  have inv': "pool_inv name tot (sched_step ctx name a i cfg)"
    by (rule pool_inv_step [OF Cons.prems(1)])
  have len: "j < length (fst (sched_step ctx name a i cfg))"
    using Cons.prems(2) by simp
  have "work (fst (run_schedule ctx name a (i # sch) cfg) ! j)
        = work (fst (sched_step ctx name a i cfg) ! j) - count_list sch j"
    using Cons.IH [OF inv' len] by simp
  also have "\<dots> = (if i = j then work (gs ! j) - 1 else work (gs ! j)) - count_list sch j"
    using work_step [of name tot gs w j ctx a i] Cons.prems cfg by simp
  also have "\<dots> = work (fst cfg ! j) - count_list (i # sch) j"
    using cfg by simp
  finally show ?case .
qed

lemma work_zero:
  assumes "pool_inv name tot (gs, w)" and "j < length gs" and "work (gs ! j) = 0"
  shows "fst (gs ! j) = 0"
proof -
  obtain k p where g: "gs ! j = (k, p)" by (cases "gs ! j")
  from assms(1,2) g have pos: "p \<noteq> AtLookup \<longrightarrow> 0 < k"
    by (auto simp: pool_inv_def dest!: nth_mem)
  with assms(3) g show ?thesis
    by (cases p) auto
qed

lemma fair_schedule_done:
  assumes reg: "counter_handle w name \<noteq> None"
    and fair: "\<forall>j < N. 3 * M \<le> count_list sch j"
  shows "all_done (fst (run_schedule ctx name a sch (spawn N M, w)))"
proof -
  let ?tot = "GetMetricValue name w + of_nat (N * M)"
  let ?fin = "run_schedule ctx name a sch (spawn N M, w)"
  have inv0: "pool_inv name ?tot (spawn N M, w)"
    by (rule pool_inv_spawn [OF reg])
  have inv: "pool_inv name ?tot (fst ?fin, snd ?fin)"
    using pool_inv_run [OF inv0, of ctx a sch] by simp
  have len: "length (fst ?fin) = N"
    by (simp add: spawn_def)
  have "fst (fst ?fin ! j) = 0" if j: "j < N" for j
  proof -
    have "work (fst ?fin ! j) = work (spawn N M ! j) - count_list sch j"
      using work_run [OF inv0, of j ctx a sch] j by (simp add: spawn_def)
    also have "\<dots> = 0"
      using fair j by (simp add: spawn_def)
    finally show ?thesis
      using work_zero [OF inv, of j] j len by simp
  qed
  then show ?thesis
    using len by (auto simp: all_done_def list_all_length)
qed


lemma goroutine_call_refines:
  assumes "counter_handle w name \<noteq> None"
  shows "run_schedule ctx name a [0, 0, 0] ([(Suc k, AtLookup)], w)
         = ([(k, AtLookup)], addToIntCounterImpl ctx name 1 a w)"
  using assms
  by (auto simp: sched_step_def goroutine_step_def addToIntCounterImpl_def counter_handle_def
      lookup_registry_def split: option.splits)

lemma sint_int64_of_nat:
  assumes "n < 2 ^ 63"
  shows "sint (word_of_nat n :: int64) = int n"
proof -
  have "sint (word_of_nat n :: int64) = signed_take_bit 63 (int n)"
    using sint_sbintrunc' [of "int n", where 'a = 64] by simp
  also have "\<dots> = int n"
  proof (rule signed_take_bit_int_eq_self)
    show "- (2 ^ 63) \<le> int n" by simp
    have "int n < int (2 ^ 63)" using assms by (simp only: of_nat_less_iff)
    then show "int n < 2 ^ 63" by simp
  qed
  finally show ?thesis by simp
qed

text \<open>
  C7. \<open>N\<close> goroutines each call \<^verbatim>\<open>AddToIntCounter(ctx, name, 1)\<close> \<open>M\<close> times on a registered
  counter. Whatever the interleaving of their atomic steps, once all of them have finished
  the running total that \<open>GetMetricValue\<close> reports has grown by \<open>N * M\<close> (in \<open>int64\<close>
  arithmetic; it reads \<open>N * M\<close> itself when the total started at 0 and \<open>N * M < 2 ^ 63\<close>),
  and every schedule that gives each goroutine its \<open>3 * M\<close> steps finishes them all. One
  goroutine running one call alone does what \<open>addToIntCounterImpl\<close> does. The total is read
  from \<open>localValues\<close> only: it does not depend on the calls the SDK has received.
\<close>

theorem concurrent_increments_total:
  assumes "counter_handle w name \<noteq> None"
  shows "(all_done (fst (run_schedule ctx name a sch (spawn N M, w))) \<longrightarrow>
            GetMetricValue name (snd (run_schedule ctx name a sch (spawn N M, w)))
              = GetMetricValue name w + of_nat (N * M))
       \<and> ((\<forall>j < N. 3 * M \<le> count_list sch j) \<longrightarrow>
            all_done (fst (run_schedule ctx name a sch (spawn N M, w))))
       \<and> (all_done (fst (run_schedule ctx name a sch (spawn N M, w)))
            \<and> GetMetricValue name w = 0 \<and> N * M < 2 ^ 63 \<longrightarrow>
            sint (GetMetricValue name (snd (run_schedule ctx name a sch (spawn N M, w))))
              = int (N * M))
       \<and> run_schedule ctx name a [0, 0, 0] ([(Suc k, AtLookup)], w)
           = ([(k, AtLookup)], addToIntCounterImpl ctx name 1 a w)
       \<and> GetMetricValue name (w\<lparr>events := es\<rparr>) = GetMetricValue name w"
proof -
  let ?fin = "run_schedule ctx name a sch (spawn N M, w)"
  have inv: "pool_inv name (GetMetricValue name w + of_nat (N * M)) (fst ?fin, snd ?fin)"
    using pool_inv_run [OF pool_inv_spawn [OF assms], where ctx = ctx and a = a and sch = sch]
    by simp
  have safe: "all_done (fst ?fin) \<longrightarrow>
      GetMetricValue name (snd ?fin) = GetMetricValue name w + of_nat (N * M)"
    using pool_inv_done [OF inv] by blast
  have live: "(\<forall>j < N. 3 * M \<le> count_list sch j) \<longrightarrow> all_done (fst ?fin)"
    using fair_schedule_done [OF assms] by blast
  have signed: "all_done (fst ?fin) \<and> GetMetricValue name w = 0 \<and> N * M < 2 ^ 63 \<longrightarrow>
      sint (GetMetricValue name (snd ?fin)) = int (N * M)"
    using safe sint_int64_of_nat [of "N * M"] by auto
  show ?thesis
    using safe live signed goroutine_call_refines [OF assms] GetMetricValue_steps(3)
    by blast
qed

theorem concurrent_increments_total_witness:
  "counter_handle world_registered ''biz.operation.error.total'' \<noteq> None
   \<and> all_done (fst (run_schedule Background ''biz.operation.error.total'' []
        [0, 1, 1, 0, 0, 1, 0, 1, 1, 0, 1, 0] (spawn 2 2, world_registered)))
   \<and> GetMetricValue ''biz.operation.error.total''
        (snd (run_schedule Background ''biz.operation.error.total'' []
           [0, 1, 1, 0, 0, 1, 0, 1, 1, 0, 1, 0] (spawn 2 2, world_registered))) = 4
   \<and> sint (GetMetricValue ''biz.operation.error.total''
        (snd (run_schedule Background ''biz.operation.error.total'' []
           [0, 1, 1, 0, 0, 1, 0, 1, 1, 0, 1, 0] (spawn 2 2, world_registered)))) = 4"
proof -
  have reg: "counter_handle world_registered ''biz.operation.error.total'' \<noteq> None"
    by simp
  have fair: "\<forall>j < 2. 3 * 2 \<le> count_list [0, 1, 1, 0, 0, 1, 0, 1, 1, 0, 1, 0] (j::nat)"
    by (auto simp: less_Suc_eq numeral_2_eq_2)
  show ?thesis
    using concurrent_increments_total [OF reg, of Background "[]"
        "[0, 1, 1, 0, 0, 1, 0, 1, 1, 0, 1, 0]" 2 2] reg fair
    by simp
qed

end
